theory Spec2Isabelle
  imports Complex_Main "HOL-Library.Multiset" "HOL-Library.Sublist"
begin

section \<open>Tensors over the reals\<close>

text \<open>
  Two-dimensional tensors are lists of rows. Unless a section says otherwise the entries
  are real numbers and rounding is not modelled; \<open>x / 0\<close> is HOL's \<open>0\<close> where torch
  would produce \<open>inf\<close> or \<open>nan\<close>, and no theorem below rests on the value of such a
  quotient.
\<close>

type_synonym vec = "real list"

definition column :: "vec list \<Rightarrow> nat \<Rightarrow> vec" where
  "column xs j = map (\<lambda>r. r ! j) xs"

definition mean_list :: "vec \<Rightarrow> real" where
  "mean_list xs = sum_list xs / real (length xs)"

definition mean_dim0 :: "nat \<Rightarrow> vec list \<Rightarrow> vec" where
  \<comment> \<open>\<open>x.mean(dim=0)\<close> of an \<open>n \<times> d\<close> tensor: the \<open>d\<close> column means\<close>
  "mean_dim0 d xs = map (\<lambda>j. mean_list (column xs j)) [0..<d]"

definition vec_norm :: "vec \<Rightarrow> real" where
  "vec_norm v = sqrt (sum_list (map (\<lambda>a. a * a) v))"

definition norm_dim0 :: "nat \<Rightarrow> vec list \<Rightarrow> vec" where
  \<comment> \<open>\<open>x.norm(dim=0, keepdim=True)\<close>: the norm of every column\<close>
  "norm_dim0 d xs = map (\<lambda>j. vec_norm (column xs j)) [0..<d]"

section \<open>Preprocessing: \<open>normalize\<close> (src/elk/training/preprocessing.py)\<close>

text \<open>
  \<open>normalize\<close> updates both of its arguments in place (\<open>-=\<close>, \<open>*=\<close>) and returns
  them, and two tensors may share memory: a tensor is a view of a number of consecutive
  rows of a buffer. The store maps a buffer and a row index to a row; a tensor object
  holds its buffer, the index of its first row, its number of rows and its width. Two
  arguments may be the same object, overlapping views of one buffer, or disjoint. Views
  that select columns or strides are not modelled. An exception leaves the store as it was
  when it was raised.
\<close>

datatype error =
    ValueError string
  | AssertionError string
  | TypeError string
  | KeyError string
  | IndexError string
  | RuntimeError string
  | NotImplementedError string

record tensor2 =
  buf :: nat
  off :: nat
  nrows :: nat
  width :: nat

type_synonym store = "nat \<Rightarrow> nat \<Rightarrow> vec"

definition rows_of :: "store \<Rightarrow> tensor2 \<Rightarrow> vec list" where
  \<comment> \<open>the rows a tensor object sees\<close>
  "rows_of h x = map (\<lambda>i. h (buf x) (off x + i)) [0..<nrows x]"

definition update_rows :: "store \<Rightarrow> tensor2 \<Rightarrow> (vec \<Rightarrow> vec) \<Rightarrow> store" where
  \<comment> \<open>an in-place operation: every row of the view is replaced in the buffer, so every
      other view of these rows sees the new values\<close>
  "update_rows h x f =
     h(buf x := (\<lambda>i. if off x \<le> i \<and> i < off x + nrows x then f (h (buf x) i)
                      else h (buf x) i))"

definition broadcast :: "nat \<Rightarrow> vec \<Rightarrow> error + vec" where
  \<comment> \<open>the right operand of an in-place operation on rows of width \<open>w\<close>: a vector of
      that length, or a vector of length 1, which torch repeats; anything else cannot be
      broadcast to the shape of the left operand\<close>
  "broadcast w m =
     (if length m = w then Inr m
      else if length m = 1 then Inr (replicate w (m ! 0))
      else Inl (RuntimeError ''The size of tensor a must match the size of tensor b''))"

definition isub :: "store \<Rightarrow> tensor2 \<Rightarrow> vec \<Rightarrow> (error + unit) \<times> store" where
  \<comment> \<open>\<open>x -= m\<close>, the vector \<open>m\<close> broadcast over the rows\<close>
  "isub h x m =
     (case broadcast (width x) m of
        Inl e \<Rightarrow> (Inl e, h)
      | Inr m' \<Rightarrow> (Inr (), update_rows h x (\<lambda>r. map2 (-) r m')))"

definition imul_vec :: "store \<Rightarrow> tensor2 \<Rightarrow> vec \<Rightarrow> (error + unit) \<times> store" where
  \<comment> \<open>\<open>x *= s\<close>, the vector \<open>s\<close> (of shape \<open>(1, d)\<close>) broadcast over the rows\<close>
  "imul_vec h x s =
     (case broadcast (width x) s of
        Inl e \<Rightarrow> (Inl e, h)
      | Inr s' \<Rightarrow> (Inr (), update_rows h x (\<lambda>r. map2 (*) r s')))"

definition imul_scalar :: "store \<Rightarrow> tensor2 \<Rightarrow> real \<Rightarrow> store" where
  \<comment> \<open>\<open>x *= c\<close> for a number \<open>c\<close>\<close>
  "imul_scalar h x c = update_rows h x (map (\<lambda>a. a * c))"

definition normalize ::
  "store \<Rightarrow> tensor2 \<Rightarrow> tensor2 \<Rightarrow> string \<Rightarrow> (error + tensor2 \<times> tensor2) \<times> store" where
  "normalize h train_hiddens val_hiddens method =
     (if method = ''legacy'' then
        (if width train_hiddens \<noteq> width val_hiddens
         then (Inl (RuntimeError ''Sizes of tensors must match except in dimension 0''), h)
         else
           let d = width train_hiddens;
               master = rows_of h train_hiddens @ rows_of h val_hiddens;
               means = mean_dim0 d master
           in (case isub h train_hiddens means of
                 (Inl e, h1) \<Rightarrow> (Inl e, h1)
               | (Inr _, h1) \<Rightarrow>
             (case isub h1 val_hiddens means of
                 (Inl e, h2) \<Rightarrow> (Inl e, h2)
               | (Inr _, h2) \<Rightarrow>
               let scale = sqrt (real d) / mean_list (map vec_norm master);
                   h3 = imul_scalar h2 train_hiddens scale;
                   h4 = imul_scalar h3 val_hiddens scale
               in (Inr (train_hiddens, val_hiddens), h4))))
      else
        let d = width train_hiddens;
            means = mean_dim0 d (rows_of h train_hiddens)
        in (case isub h train_hiddens means of
              (Inl e, h1) \<Rightarrow> (Inl e, h1)
            | (Inr _, h1) \<Rightarrow>
          (case isub h1 val_hiddens means of
              (Inl e, h2) \<Rightarrow> (Inl e, h2)
            | (Inr _, h2) \<Rightarrow>
            if method = ''elementwise'' then
              let scale = map (\<lambda>n. 1 / n) (norm_dim0 d (rows_of h2 train_hiddens))
              in (case imul_vec h2 train_hiddens scale of
                    (Inl e, h3) \<Rightarrow> (Inl e, h3)
                  | (Inr _, h3) \<Rightarrow>
                 (case imul_vec h3 val_hiddens scale of
                    (Inl e, h4) \<Rightarrow> (Inl e, h4)
                  | (Inr _, h4) \<Rightarrow> (Inr (train_hiddens, val_hiddens), h4)))
            else if method = ''meanonly'' then
              let h3 = imul_scalar h2 train_hiddens 1;
                  h4 = imul_scalar h3 val_hiddens 1
              in (Inr (train_hiddens, val_hiddens), h4)
            else
              (Inl (NotImplementedError (''Scale method '' @ [CHR 0x27] @ method @ [CHR 0x27]
                      @ '' is not supported.'')), h2))))"

definition returned_train :: "(error + tensor2 \<times> tensor2) \<times> store \<Rightarrow> vec list option" where
  \<comment> \<open>the training tensor a call returns: the rows of the first component of the
      returned pair in the final store; \<open>None\<close> when the call raised\<close>
  "returned_train res =
     (case res of (Inl e, h') \<Rightarrow> None | (Inr (a, b), h') \<Rightarrow> Some (rows_of h' a))"

definition disjoint :: "tensor2 \<Rightarrow> tensor2 \<Rightarrow> bool" where
  \<comment> \<open>two tensor objects share no row: they view different buffers or ranges of rows
      that do not meet\<close>
  "disjoint x y =
     (buf x \<noteq> buf y \<or> off x + nrows x \<le> off y \<or> off y + nrows y \<le> off x)"

definition store_of :: "vec list \<Rightarrow> vec list \<Rightarrow> store" where
  \<comment> \<open>a store whose buffer 0 holds the rows \<open>xs\<close> and whose other buffers hold \<open>ys\<close>\<close>
  "store_of xs ys =
     (\<lambda>b i. if b = 0 then (if i < length xs then xs ! i else [])
            else (if i < length ys then ys ! i else []))"

section \<open>Probes: \<open>LinearProbe\<close> (src/elk/utils_evaluation/probes.py)\<close>

text \<open>
  The probe computes in single precision. The value of a float32 is a finite number, one
  of the two infinities, or NaN. A result whose magnitude exceeds the largest finite
  float32 becomes the infinity of its sign, and the sum of the two infinities is NaN.
  The rounding of a finite result to the nearest float32 is left out: a result within
  the range is kept as the real number it is. Weights, bias and inputs are finite.
\<close>

datatype fl = Fin real | PInf | NInf | NaN

definition max_f32 :: real where
  \<comment> \<open>the largest finite float32, \<open>(2 - 2^-23) * 2^127\<close>\<close>
  "max_f32 = 340282346638528859811704183484516925440"

definition rnd :: "real \<Rightarrow> fl" where
  \<comment> \<open>the float32 an exact result becomes: overflow gives an infinity\<close>
  "rnd r = (if max_f32 < r then PInf else if r < - max_f32 then NInf else Fin r)"

fun fadd :: "fl \<Rightarrow> fl \<Rightarrow> fl" where
  "fadd (Fin a) (Fin b) = rnd (a + b)"
| "fadd NaN y = NaN"
| "fadd x NaN = NaN"
| "fadd PInf NInf = NaN"
| "fadd NInf PInf = NaN"
| "fadd PInf y = PInf"
| "fadd x PInf = PInf"
| "fadd NInf y = NInf"
| "fadd x NInf = NInf"

definition sigmoid :: "real \<Rightarrow> real" where
  "sigmoid z = 1 / (1 + exp (- z))"

fun fsigmoid :: "fl \<Rightarrow> fl" where
  \<comment> \<open>\<open>torch.sigmoid\<close>: 1 at plus infinity, 0 at minus infinity, NaN at NaN\<close>
  "fsigmoid (Fin z) = Fin (sigmoid z)"
| "fsigmoid PInf = Fin 1"
| "fsigmoid NInf = Fin 0"
| "fsigmoid NaN = NaN"

record linear =
  weight :: vec
  bias :: "real option"

definition dot :: "vec \<Rightarrow> vec \<Rightarrow> real" where
  "dot x w = sum_list (map2 (*) x w)"

definition fdot :: "vec \<Rightarrow> vec \<Rightarrow> fl" where
  \<comment> \<open>the inner product in float32: every product is a float32, and the products are
      added from left to right\<close>
  "fdot x w = foldl fadd (Fin 0) (map2 (\<lambda>a b. rnd (a * b)) x w)"

definition linear_apply :: "linear \<Rightarrow> vec \<Rightarrow> error + fl" where
  \<comment> \<open>\<open>nn.Linear(input_dim, 1, bias=include_bias)\<close> on one row: the row must have
      \<open>input_dim\<close> entries; without a bias nothing is added\<close>
  "linear_apply l x =
     (if length x \<noteq> length (weight l)
      then Inl (RuntimeError ''mat1 and mat2 shapes cannot be multiplied'')
      else Inr (case bias l of None \<Rightarrow> fdot x (weight l)
                | Some b \<Rightarrow> fadd (fdot x (weight l)) (Fin b)))"

fun forward :: "linear \<Rightarrow> vec list \<Rightarrow> error + fl list list" where
  \<comment> \<open>\<open>LinearProbe.forward\<close>: \<open>torch.sigmoid(self.linear(x))\<close>, one output row of
      length 1 for every input row\<close>
  "forward l [] = Inr []"
| "forward l (x # xs) =
     (case linear_apply l x of
        Inl e \<Rightarrow> Inl e
      | Inr z \<Rightarrow> (case forward l xs of Inl e \<Rightarrow> Inl e | Inr ys \<Rightarrow> Inr ([fsigmoid z] # ys)))"

fun in_unit :: "fl \<Rightarrow> bool" where
  \<comment> \<open>a number of the interval [0,1]\<close>
  "in_unit (Fin r) = (0 \<le> r \<and> r \<le> 1)"
| "in_unit y = False"

definition no_overflow :: "linear \<Rightarrow> vec \<Rightarrow> bool" where
  \<comment> \<open>the magnitudes of the products and of the bias add up to a finite float32, so no
      step of the projection of \<open>x\<close> leaves the range\<close>
  "no_overflow l x =
     (sum_list (map2 (\<lambda>a b. \<bar>a * b\<bar>) x (weight l))
        + (case bias l of None \<Rightarrow> 0 | Some b \<Rightarrow> \<bar>b\<bar>) \<le> max_f32)"

definition platt :: "real \<Rightarrow> real \<Rightarrow> real \<Rightarrow> real" where
  \<comment> \<open>Modelled from the spec: the Calibrator (\<open>platt_scale\<close> and the calibrated forward
      pass of a Reporter) is missing from the sources. Spec 4.3: a 1-dimensional affine
      transform (scale and bias) in logit space maps the reporter's raw score to a
      calibrated probability. Scale, bias and raw score are finite and the transform is
      taken over the reals.\<close>
  "platt scale b raw = sigmoid (scale * raw + b)"

section \<open>The layer orchestrator: \<open>Elicit.apply_to_layer\<close> (src/ccs/training/train.py)\<close>

text \<open>
  A tensor of any rank is its shape and its entries in row-major order. A bundle
  (\<open>hs_bundle\<close>) is what \<open>prepare_data\<close> returns for one dataset and split, with the
  fields \<open>apply_to_layer\<close> reads for the result tables. The two dictionaries are
  association lists in insertion order, with distinct keys.
\<close>

record tensor =
  shape :: "nat list"
  elems :: "real list"

record hs_bundle =
  hiddens :: tensor
  labels :: "nat list"
  lm_preds :: "tensor option"

datatype fitter_config =
    CcsConfig (seed: int)
  | EigenFitterConfig (seed: int)
  | OtherConfig (type_name: string) (seed: int)

record elicit =
  net :: fitter_config
  supervised :: string
  out_dir :: "string option"

text \<open>
  What a run does to the world outside its return value: it seeds the random generators,
  creates directories, fits, calibrates and saves a reporter, and calls it. The trace
  records these steps in order; an event that handles the reporter carries the reporter
  it handles.
\<close>

datatype 'r event =
    MakeReproducible int
  | CreateModelsDir string
  | CcsFit
  | EigenUpdate string
  | FitStreaming
  | PlattScale 'r
  | SaveReporter int 'r
  | TrainSupervised string
  | SaveLrModels int
  | ReporterCall 'r string string

record 'r world =
  rng :: int
  trace :: "'r event list"

definition emit :: "'r event list \<Rightarrow> 'r world \<Rightarrow> 'r world" where
  "emit es w = w\<lparr>trace := trace w @ es\<rparr>"

definition make_reproducible :: "int \<Rightarrow> 'r world \<Rightarrow> 'r world" where
  \<comment> \<open>Modelled from the spec: \<open>Run.make_reproducible\<close> is missing from the sources.
      Spec 4.2 and 4.5: the random generators are seeded deterministically from the
      given seed, whatever state they were in.\<close>
  "make_reproducible s w = emit [MakeReproducible s] (w\<lparr>rng := s\<rparr>)"

text \<open>
  The classes and functions \<open>apply_to_layer\<close> calls and the sources do not hold
  (\<open>CcsReporter\<close>, \<open>EigenFitter\<close>, the reporter's \<open>platt_scale\<close> and forward pass,
  \<open>train_supervised\<close>, \<open>evaluate_preds\<close>, \<open>to_one_hot\<close>) are parameters of the model:
  \<open>'r\<close> is a reporter, \<open>'s\<close> the state of an eigen fitter, \<open>'l\<close> a supervised model,
  \<open>'m\<close> a metrics record. Those that draw random numbers take the state of the
  generator and return the new one. An exception raised inside one of them is not
  modelled.
\<close>

record ('r, 's, 'l, 'm) collaborators =
  ccs_fit :: "int \<Rightarrow> fitter_config \<Rightarrow> nat \<Rightarrow> nat \<Rightarrow> tensor \<Rightarrow> ('r \<times> real) \<times> int"
  new_fitter :: "fitter_config \<Rightarrow> nat \<Rightarrow> nat \<Rightarrow> nat \<Rightarrow> 's"
  fitter_update :: "'s \<Rightarrow> tensor \<Rightarrow> 's"
  fit_streaming :: "'s \<Rightarrow> 'r"
  platt_scale :: "'r \<Rightarrow> tensor \<Rightarrow> tensor \<Rightarrow> 'r"
  reporter_call :: "'r \<Rightarrow> tensor \<Rightarrow> tensor"
  train_supervised :: "int \<Rightarrow> (string \<times> hs_bundle) list \<Rightarrow> string \<Rightarrow> 'l list \<times> int"
  lr_call :: "'l \<Rightarrow> tensor \<Rightarrow> tensor"
  evaluate_preds :: "nat list \<Rightarrow> tensor \<Rightarrow> string \<Rightarrow> 'm"
  to_one_hot :: "nat list \<Rightarrow> nat \<Rightarrow> tensor"

subsection \<open>Shape validation\<close>

definition shape_neg :: "nat list \<Rightarrow> nat \<Rightarrow> error + nat" where
  \<comment> \<open>\<open>shape[-i]\<close>\<close>
  "shape_neg s i =
     (if 0 < i \<and> i \<le> length s then Inr (s ! (length s - i))
      else Inl (IndexError ''tuple index out of range''))"

fun all_equal_dim :: "nat \<Rightarrow> nat \<Rightarrow> hs_bundle list \<Rightarrow> error + bool" where
  \<comment> \<open>\<open>all(other.hiddens.shape[-i] == x for other in rest)\<close>: stops at the first
      dataset that differs\<close>
  "all_equal_dim i x [] = Inr True"
| "all_equal_dim i x (other # rest) =
     (case shape_neg (shape (hiddens other)) i of
        Inl e \<Rightarrow> Inl e
      | Inr y \<Rightarrow> if y = x then all_equal_dim i x rest else Inr False)"

definition unpack4 :: "nat list \<Rightarrow> error + nat \<times> nat \<times> nat \<times> nat" where
  \<comment> \<open>\<open>(n, v, k, d) = hiddens.shape\<close>; the message leaves out the count Python
      appends\<close>
  "unpack4 s =
     (case s of
        [n, v, k, d] \<Rightarrow> Inr (n, v, k, d)
      | _ \<Rightarrow> Inl (ValueError (if length s < 4 then ''not enough values to unpack (expected 4)''
                               else ''too many values to unpack (expected 4)'')))"

definition validate :: "hs_bundle list \<Rightarrow> error + hs_bundle \<times> nat \<times> nat \<times> nat" where
  \<comment> \<open>lines 75 to 85: the first dataset gives \<open>v\<close>, \<open>k\<close> and \<open>d\<close>; the others are
      compared with it\<close>
  "validate vals =
     (case vals of
        [] \<Rightarrow> Inl (ValueError ''not enough values to unpack (expected at least 1, got 0)'')
      | first_train_data # rest \<Rightarrow>
          (case unpack4 (shape (hiddens first_train_data)) of
             Inl e \<Rightarrow> Inl e
           | Inr (n, v, k, d) \<Rightarrow>
               (case all_equal_dim 1 d rest of
                  Inl e \<Rightarrow> Inl e
                | Inr ok_d \<Rightarrow>
                    if \<not> ok_d
                    then Inl (ValueError ''All datasets must have the same hidden state size'')
                    else
                      (case all_equal_dim 2 k rest of
                         Inl e \<Rightarrow> Inl e
                       | Inr ok_k \<Rightarrow>
                           if \<not> ok_k
                           then Inl (ValueError
                                  ''All datasets must have the same number of classes'')
                           else Inr (first_train_data, v, k, d)))))"

subsection \<open>Fitting and calibration\<close>

definition rearrange_rows :: "tensor \<Rightarrow> tensor" where
  \<comment> \<open>\<open>rearrange(x, "n v k d -> (n v k) d")\<close>\<close>
  "rearrange_rows x =
     (case shape x of
        [n, v, k, d] \<Rightarrow> \<lparr>shape = [n * v * k, d], elems = elems x\<rparr>
      | _ \<Rightarrow> x)"

definition repeat_labels :: "nat list \<Rightarrow> nat \<Rightarrow> nat list" where
  \<comment> \<open>\<open>repeat(labels, "n -> (n v)", v=v)\<close>\<close>
  "repeat_labels ls v = concat (map (replicate v) ls)"

definition flatten :: "tensor \<Rightarrow> tensor" where
  "flatten x = \<lparr>shape = [length (elems x)], elems = elems x\<rparr>"

definition repeat_variants :: "tensor \<Rightarrow> nat \<Rightarrow> tensor" where
  \<comment> \<open>\<open>repeat(x, "n k -> n v k", v=v)\<close>: every row of \<open>k\<close> entries \<open>v\<close> times\<close>
  "repeat_variants x v =
     (case shape x of
        [n, k] \<Rightarrow>
          \<lparr>shape = [n, v, k],
           elems = concat (map (\<lambda>i. concat (replicate v (take k (drop (i * k) (elems x)))))
                     [0..<n])\<rparr>
      | _ \<Rightarrow> x)"

definition cat :: "tensor list \<Rightarrow> tensor" where
  \<comment> \<open>\<open>torch.cat\<close> along the first axis, of tensors that agree on the other axes\<close>
  "cat xs =
     (case xs of
        [] \<Rightarrow> \<lparr>shape = [0], elems = []\<rparr>
      | x # _ \<Rightarrow>
          \<lparr>shape = sum_list (map (\<lambda>y. case shape y of [] \<Rightarrow> 0 | n # _ \<Rightarrow> n) xs) # tl (shape x),
           elems = concat (map elems xs)\<rparr>)"

fun stream_updates ::
  "('r, 's, 'l, 'm) collaborators \<Rightarrow> nat \<Rightarrow> (string \<times> hs_bundle) list \<Rightarrow>
   's \<times> tensor list \<times> tensor list \<Rightarrow>
   (error + 's \<times> tensor list \<times> tensor list) \<times> 'r event list" where
  \<comment> \<open>lines 104 to 117: one \<open>update\<close> for every training dataset, in the order of the
      dictionary\<close>
  "stream_updates X k [] acc = (Inr acc, [])"
| "stream_updates X k ((ds_name, train_data) # rest) (fitter, hidden_list, label_list) =
     (case unpack4 (shape (hiddens train_data)) of
        Inl e \<Rightarrow> (Inl e, [])
      | Inr (n, v, k', d') \<Rightarrow>
          (case stream_updates X k rest
                  (fitter_update X fitter (hiddens train_data),
                   hidden_list @ [rearrange_rows (hiddens train_data)],
                   label_list @ [flatten (to_one_hot X (repeat_labels (labels train_data) v) k)])
           of (res, es) \<Rightarrow> (res, EigenUpdate ds_name # es)))"

definition fit_reporter ::
  "('r, 's, 'l, 'm) collaborators \<Rightarrow> fitter_config \<Rightarrow> (string \<times> hs_bundle) list \<Rightarrow>
   hs_bundle \<Rightarrow> nat \<Rightarrow> nat \<Rightarrow> nat \<Rightarrow> 'r world \<Rightarrow> (error + 'r \<times> real option) \<times> 'r world" where
  \<comment> \<open>lines 88 to 125: the branch on the type of \<open>self.net\<close>; returns the calibrated
      reporter and \<open>train_loss\<close>\<close>
  "fit_reporter X cfg train_dict first_train_data v k d w =
     (case cfg of
        CcsConfig _ \<Rightarrow>
          if length train_dict \<noteq> 1
          then (Inl (AssertionError ''CCS only supports single-task training''), w)
          else
            (case ccs_fit X (rng w) cfg d v (hiddens first_train_data) of
               ((fitted, loss), g) \<Rightarrow>
                 let lbls = repeat_variants (to_one_hot X (labels first_train_data) k) v;
                     reporter = platt_scale X fitted lbls (hiddens first_train_data)
                 in (Inr (reporter, Some loss),
                     emit [CcsFit, PlattScale reporter] (w\<lparr>rng := g\<rparr>)))
      | EigenFitterConfig _ \<Rightarrow>
          (case stream_updates X k train_dict (new_fitter X cfg d k v, [], []) of
             (Inl e, es) \<Rightarrow> (Inl e, emit es w)
           | (Inr (fitter, hidden_list, label_list), es) \<Rightarrow>
               let fitted = fit_streaming X fitter;
                   reporter = platt_scale X fitted (cat label_list) (cat hidden_list)
               in (Inr (reporter, None),
                   emit (es @ [FitStreaming, PlattScale reporter]) w))
      | OtherConfig name _ \<Rightarrow>
          (Inl (ValueError (''Unknown reporter config type: <class '' @ [CHR 0x27] @ name
                  @ [CHR 0x27] @ ''>'')), w))"

subsection \<open>Evaluation\<close>

text \<open>
  \<open>row_bufs\<close> is a \<open>defaultdict(list)\<close>: a table that was never appended to is the empty
  list. A row holds the keys of the dictionaries the source appends; \<open>inlp_iter\<close> and
  \<open>train_loss\<close> are \<open>None\<close> in the rows that have no such key, and \<open>train_loss\<close> is
  \<open>Some None\<close> where the key holds Python's \<open>None\<close>. The second component of the
  source's result, the optional dump of log-probabilities, is left out of the model.
\<close>

record 'm row =
  dataset :: string
  layer :: int
  ensembling :: string
  inlp_iter :: "nat option"
  metrics :: 'm
  train_loss :: "real option option"

type_synonym 'm row_bufs = "string \<Rightarrow> 'm row list"

definition append_row :: "'m row_bufs \<Rightarrow> string \<Rightarrow> 'm row \<Rightarrow> 'm row_bufs" where
  "append_row bufs key r = bufs(key := bufs key @ [r])"

fun lr_loop ::
  "('r, 's, 'l, 'm) collaborators \<Rightarrow> string \<Rightarrow> int \<Rightarrow> string \<Rightarrow> hs_bundle \<Rightarrow> hs_bundle \<Rightarrow>
   (nat \<times> 'l) list \<Rightarrow> tensor \<times> tensor \<times> 'm row_bufs \<Rightarrow> tensor \<times> tensor \<times> 'm row_bufs" where
  \<comment> \<open>lines 216 to 244: \<open>for i, model in enumerate(lr_models)\<close>; the loop assigns the
      local variables \<open>val_credences\<close> and \<open>train_credences\<close>\<close>
  "lr_loop X ds_name lyr mode val train [] st = st"
| "lr_loop X ds_name lyr mode val train ((i, model) # rest) (val_credences, train_credences, bufs) =
     (let val_credences' = lr_call X model (hiddens val);
          train_credences' = lr_call X model (hiddens train);
          bufs1 = append_row bufs ''lr_eval''
            \<lparr>dataset = ds_name, layer = lyr, ensembling = mode, inlp_iter = Some i,
             metrics = evaluate_preds X (labels val) val_credences' mode, train_loss = None\<rparr>;
          bufs2 = append_row bufs1 ''train_lr_eval''
            \<lparr>dataset = ds_name, layer = lyr, ensembling = mode, inlp_iter = Some i,
             metrics = evaluate_preds X (labels train) train_credences' mode, train_loss = None\<rparr>
      in lr_loop X ds_name lyr mode val train rest (val_credences', train_credences', bufs2))"

fun mode_loop ::
  "('r, 's, 'l, 'm) collaborators \<Rightarrow> string \<Rightarrow> int \<Rightarrow> real option \<Rightarrow> 'l list \<Rightarrow>
   hs_bundle \<Rightarrow> hs_bundle \<Rightarrow> string list \<Rightarrow>
   tensor \<times> tensor \<times> 'm row_bufs \<Rightarrow> tensor \<times> tensor \<times> 'm row_bufs" where
  \<comment> \<open>lines 162 to 244: \<open>for mode in ("none", "partial", "full")\<close>; every pass reads
      \<open>val_credences\<close> and \<open>train_credences\<close> as the pass before left them\<close>
  "mode_loop X ds_name lyr loss lr_models val train [] st = st"
| "mode_loop X ds_name lyr loss lr_models val train (mode # modes)
      (val_credences, train_credences, bufs) =
     (let bufs1 = append_row bufs ''eval''
            \<lparr>dataset = ds_name, layer = lyr, ensembling = mode, inlp_iter = None,
             metrics = evaluate_preds X (labels val) val_credences mode,
             train_loss = Some loss\<rparr>;
          bufs2 = append_row bufs1 ''train_eval''
            \<lparr>dataset = ds_name, layer = lyr, ensembling = mode, inlp_iter = None,
             metrics = evaluate_preds X (labels train) train_credences mode,
             train_loss = Some loss\<rparr>;
          bufs3 = (case lm_preds val of
                     None \<Rightarrow> bufs2
                   | Some p \<Rightarrow> append_row bufs2 ''lm_eval''
                       \<lparr>dataset = ds_name, layer = lyr, ensembling = mode, inlp_iter = None,
                        metrics = evaluate_preds X (labels val) p mode, train_loss = None\<rparr>);
          bufs4 = (case lm_preds train of
                     None \<Rightarrow> bufs3
                   | Some p \<Rightarrow> append_row bufs3 ''train_lm_eval''
                       \<lparr>dataset = ds_name, layer = lyr, ensembling = mode, inlp_iter = None,
                        metrics = evaluate_preds X (labels train) p mode, train_loss = None\<rparr>)
      in mode_loop X ds_name lyr loss lr_models val train modes
           (lr_loop X ds_name lyr mode val train (enumerate 0 lr_models)
              (val_credences, train_credences, bufs4)))"

fun ds_loop ::
  "('r, 's, 'l, 'm) collaborators \<Rightarrow> int \<Rightarrow> real option \<Rightarrow> 'l list \<Rightarrow> 'r \<Rightarrow>
   (string \<times> hs_bundle) list \<Rightarrow> (string \<times> hs_bundle) list \<Rightarrow> 'm row_bufs \<Rightarrow>
   (error + 'm row_bufs) \<times> 'r event list" where
  \<comment> \<open>lines 145 to 244: \<open>for ds_name in val_dict\<close>; \<open>train_dict[ds_name]\<close> raises
      \<open>KeyError\<close> for a dataset that has no training split\<close>
  "ds_loop X lyr loss lr_models reporter train_dict [] bufs = (Inr bufs, [])"
| "ds_loop X lyr loss lr_models reporter train_dict ((ds_name, val) # rest) bufs =
     (case map_of train_dict ds_name of
        None \<Rightarrow> (Inl (KeyError ds_name), [])
      | Some train \<Rightarrow>
          let val_credences = reporter_call X reporter (hiddens val);
              train_credences = reporter_call X reporter (hiddens train);
              bufs' = snd (snd (mode_loop X ds_name lyr loss lr_models val train
                        [''none'', ''partial'', ''full'']
                        (val_credences, train_credences, bufs)))
          in (case ds_loop X lyr loss lr_models reporter train_dict rest bufs' of
                (res, es) \<Rightarrow>
                  (res, ReporterCall reporter ds_name ''val''
                        # ReporterCall reporter ds_name ''train'' # es)))"

definition fit_supervised ::
  "('r, 's, 'l, 'm) collaborators \<Rightarrow> elicit \<Rightarrow> int \<Rightarrow> (string \<times> hs_bundle) list \<Rightarrow>
   'r world \<Rightarrow> 'l list \<times> 'r world" where
  \<comment> \<open>lines 131 to 140\<close>
  "fit_supervised X self lyr train_dict w =
     (if supervised self \<noteq> ''none''
      then (case train_supervised X (rng w) train_dict (supervised self) of
              (lr_models, g) \<Rightarrow>
                (lr_models,
                 emit [TrainSupervised (supervised self), SaveLrModels lyr] (w\<lparr>rng := g\<rparr>)))
      else ([], w))"

definition apply_to_layer ::
  "('r, 's, 'l, 'm) collaborators \<Rightarrow> elicit \<Rightarrow> int \<Rightarrow>
   (string \<times> hs_bundle) list \<Rightarrow> (string \<times> hs_bundle) list \<Rightarrow> 'r world \<Rightarrow>
   (error + 'm row_bufs) \<times> 'r world" where
  \<comment> \<open>\<open>train_dict\<close> and \<open>val_dict\<close> are what \<open>prepare_data\<close> returned for the two
      splits. The helper \<open>assert_type\<close> is not in the sources: it is taken to raise
      \<open>TypeError\<close> when \<open>self.out_dir\<close> is not a path (no output directory set). The
      device and the errors of the file system play no part in the model.\<close>
  "apply_to_layer X self lyr train_dict val_dict w0 =
     (let w1 = make_reproducible (seed (net self) + lyr) w0 in
      case validate (map snd train_dict) of
        Inl e \<Rightarrow> (Inl e, w1)
      | Inr (first_train_data, v, k, d) \<Rightarrow>
          (case out_dir self of
             None \<Rightarrow> (Inl (TypeError ''Expected Path, got NoneType''), w1)
           | Some dir \<Rightarrow>
               (case fit_reporter X (net self) train_dict first_train_data v k d
                       (emit [CreateModelsDir dir] w1) of
                  (Inl e, w3) \<Rightarrow> (Inl e, w3)
                | (Inr (reporter, loss), w3) \<Rightarrow>
                    (case fit_supervised X self lyr train_dict
                            (emit [SaveReporter lyr reporter] w3) of
                       (lr_models, w5) \<Rightarrow>
                         (case ds_loop X lyr loss lr_models reporter train_dict val_dict
                                 (\<lambda>key. []) of
                            (res, es) \<Rightarrow> (res, emit es w5))))))"

subsection \<open>Concrete collaborators for closed runs\<close>

definition one_hot :: "nat list \<Rightarrow> nat \<Rightarrow> tensor" where
  \<comment> \<open>Modelled from the spec: \<open>to_one_hot\<close> is missing from the sources. Spec 3: the
      one-hot expansion of the integer class ids, one row of \<open>k\<close> entries per label.\<close>
  "one_hot ls k =
     \<lparr>shape = [length ls, k],
      elems = concat (map (\<lambda>l. map (\<lambda>c. if c = l then 1 else 0) [0..<k]) ls)\<rparr>"

definition const_collaborators ::
  "tensor \<Rightarrow> tensor \<Rightarrow> (unit, unit, unit, tensor) collaborators" where
  \<comment> \<open>collaborators for running the model on concrete data: the reporter answers every
      call with the tensor \<open>a\<close>, the one supervised model with the tensor \<open>b\<close>, and the
      metrics of a row are the credences it was computed from\<close>
  "const_collaborators a b =
     \<lparr>ccs_fit = (\<lambda>g cfg d v h. (((), 0), g + 1)),
      new_fitter = (\<lambda>cfg d k v. ()),
      fitter_update = (\<lambda>s h. ()),
      fit_streaming = (\<lambda>s. ()),
      platt_scale = (\<lambda>r l h. r),
      reporter_call = (\<lambda>r h. a),
      train_supervised = (\<lambda>g td m. ([()], g + 1)),
      lr_call = (\<lambda>l h. b),
      evaluate_preds = (\<lambda>ls creds mode. creds),
      to_one_hot = one_hot\<rparr>"

definition hs :: "nat list \<Rightarrow> hs_bundle" where
  \<comment> \<open>a bundle of zeros of the given shape, with one label per example and no
      language-model predictions\<close>
  "hs s = \<lparr>hiddens = \<lparr>shape = s, elems = replicate (prod_list s) 0\<rparr>,
           labels = replicate (case s of [] \<Rightarrow> 0 | n # _ \<Rightarrow> n) 0,
           lm_preds = None\<rparr>"

section \<open>The calibrator\<close>

record reporter =
  direction :: vec
  offset :: real
  cal_scale :: real
  cal_bias :: real

definition tensor_rows :: "tensor \<Rightarrow> vec list" where
  \<comment> \<open>the vectors along the last axis of a tensor\<close>
  "tensor_rows x =
     (case rev (shape x) of
        [] \<Rightarrow> []
      | d # _ \<Rightarrow> map (\<lambda>i. take d (drop (i * d) (elems x))) [0..<prod_list (butlast (shape x))])"

definition raw_scores :: "reporter \<Rightarrow> tensor \<Rightarrow> vec" where
  \<comment> \<open>Modelled from the spec: the Reporter classes are missing from the sources. Spec 3
      and 4.1: the fitted artifact is a learned direction (with a bias on the contrastive
      path); the raw score of a hidden vector is its projection onto the direction.\<close>
  "raw_scores r hiddens_t = map (\<lambda>x. dot x (direction r) + offset r) (tensor_rows hiddens_t)"

definition platt_scale_spec ::
  "(vec \<Rightarrow> vec \<Rightarrow> real \<times> real) \<Rightarrow> reporter \<Rightarrow> tensor \<Rightarrow> tensor \<Rightarrow> reporter" where
  \<comment> \<open>Modelled from the spec: \<open>platt_scale\<close> is missing from the sources. Spec 4.3: it
      fits scale and bias of a 1-dimensional affine transform of the raw score against the
      labels (the fit under the log-loss criterion is the parameter \<open>opt\<close>) and freezes
      the transform inside the Reporter.\<close>
  "platt_scale_spec opt r labels_t hiddens_t =
     (case opt (raw_scores r hiddens_t) (elems labels_t) of
        (s, b) \<Rightarrow> r\<lparr>cal_scale := s, cal_bias := b\<rparr>)"

subsection \<open>Rows and traces of a run, for the statements below\<close>

text \<open>
  \<open>eval_row\<close> is the dictionary the source appends to the tables \<open>eval\<close> and
  \<open>train_eval\<close>. \<open>eval_rows_of\<close> lists the three rows one validation dataset adds to
  \<open>eval\<close>, with the credences the three passes of the mode loop read. A run that
  reached calibration has the trace \<open>calibrated_run\<close> describes: seeding, directories,
  the fitting steps, one \<open>PlattScale\<close>, the saving of the calibrated reporter, and then
  only the supervised baseline and calls of that same reporter.
\<close>

definition eval_row ::
  "('r, 's, 'l, 'm) collaborators \<Rightarrow> string \<Rightarrow> int \<Rightarrow> real option \<Rightarrow> nat list \<Rightarrow> tensor \<Rightarrow> string \<Rightarrow> 'm row" where
  "eval_row X ds lyr loss ls c mode =
     \<lparr>dataset = ds, layer = lyr, ensembling = mode, inlp_iter = None,
      metrics = evaluate_preds X ls c mode, train_loss = Some loss\<rparr>"

definition eval_rows_of ::
  "('r, 's, 'l, 'm) collaborators \<Rightarrow> int \<Rightarrow> real option \<Rightarrow> 'l list \<Rightarrow> 'r \<Rightarrow>
   string \<times> hs_bundle \<Rightarrow> 'm row list" where
  "eval_rows_of X lyr loss lrs reporter p =
     (case p of (ds, val) \<Rightarrow>
        let vc = reporter_call X reporter (hiddens val);
            vc' = (if lrs = [] then vc else lr_call X (last lrs) (hiddens val))
        in [eval_row X ds lyr loss (labels val) vc ''none'',
            eval_row X ds lyr loss (labels val) vc' ''partial'',
            eval_row X ds lyr loss (labels val) vc' ''full''])"

definition fit_event :: "'r event \<Rightarrow> bool" where
  "fit_event e = (e = CcsFit \<or> e = FitStreaming \<or> (\<exists>ds. e = EigenUpdate ds))"

definition calibrated_run ::
  "('r, 's, 'l, 'm) collaborators \<Rightarrow> elicit \<Rightarrow> int \<Rightarrow> 'r event list \<Rightarrow> bool" where
  "calibrated_run X self lyr es =
     (\<exists>dir fits r post fitted lbls hds.
        es = [MakeReproducible (seed (net self) + lyr), CreateModelsDir dir] @ fits
               @ [PlattScale r, SaveReporter lyr r] @ post
      \<and> fits \<noteq> [] \<and> (\<forall>e \<in> set fits. fit_event e)
      \<and> (\<forall>e \<in> set post. e = TrainSupervised (supervised self) \<or> e = SaveLrModels lyr
             \<or> (\<exists>ds sp. e = ReporterCall r ds sp))
      \<and> r = platt_scale X fitted lbls hds)"

definition uncalibrated_run :: "'r event list \<Rightarrow> bool" where
  "uncalibrated_run es =
     (\<forall>e \<in> set es. (\<exists>s. e = MakeReproducible s) \<or> (\<exists>dir. e = CreateModelsDir dir)
        \<or> (\<exists>ds. e = EigenUpdate ds))"

section \<open>The evaluation engine\<close>










section \<open>The streaming statistics of the eigen fitter\<close>

text \<open>
  The class \<open>EigenFitter\<close> (\<open>update\<close>, \<open>fit_streaming\<close>) is missing from the sources;
  the definitions of this section follow sections 3 and 4.1 of the specification. The
  sufficient statistics are a count, a running mean and a matrix of co-moments (the sum
  of the products of the deviations from the mean), kept over the rows that remain when
  the variant axis of a hidden-state tensor is flattened into the example axis: a row
  holds the \<open>k\<close> hidden vectors of one (example, variant) pair, so the covariance-like
  matrices of size \<open>d \<times> d\<close> between and within answer choices are the blocks of the
  co-moment matrix. Entries are real numbers: the tolerance the specification grants to
  floating-point summation in another order is exact equality here.
\<close>

record stats =
  n_seen :: nat
  running_mean :: vec
  comoment :: "vec list"

definition init_stats :: "nat \<Rightarrow> stats" where
  \<comment> \<open>Modelled from the spec: the statistics of a new fitter for rows of width \<open>p\<close>,
      before any \<open>update\<close>.\<close>
  "init_stats p = \<lparr>n_seen = 0, running_mean = replicate p 0, comoment = replicate p (replicate p 0)\<rparr>"

definition batch_comoment :: "nat \<Rightarrow> vec list \<Rightarrow> vec list" where
  \<comment> \<open>Modelled from the spec: the co-moment matrix of one batch of rows about the
      batch's own mean; a batch of a single row contributes zero.\<close>
  "batch_comoment p xs =
     (let m = mean_dim0 p xs
      in map (\<lambda>i. map (\<lambda>j. sum_list (map (\<lambda>x. (x ! i - m ! i) * (x ! j - m ! j)) xs)) [0..<p])
           [0..<p])"

definition absorb :: "nat \<Rightarrow> stats \<Rightarrow> vec list \<Rightarrow> stats" where
  \<comment> \<open>Modelled from the spec: the incremental mean and covariance update of spec 4.1,
      which folds a batch of rows into the running estimates without keeping the rows:
      the mean moves towards the batch mean by the batch's share of the rows seen, and
      the co-moments add up, corrected by the product of the two mean differences.\<close>
  "absorb p s batch =
     (let nb = length batch;
          n' = n_seen s + nb;
          mb = mean_dim0 p batch;
          cb = batch_comoment p batch;
          delta = map2 (-) mb (running_mean s)
      in \<lparr>n_seen = n',
          running_mean = map2 (\<lambda>m dl. m + dl * real nb / real n') (running_mean s) delta,
          comoment =
            map (\<lambda>i. map (\<lambda>j. comoment s ! i ! j + cb ! i ! j
                               + delta ! i * delta ! j * (real (n_seen s) * real nb / real n'))
                       [0..<p])
                [0..<p]\<rparr>)"

definition stats_of :: "nat \<Rightarrow> vec list \<Rightarrow> stats" where
  \<comment> \<open>the statistics of a list of rows computed in one pass over all of them (used to
      state the lemmas below)\<close>
  "stats_of p xs = \<lparr>n_seen = length xs, running_mean = mean_dim0 p xs, comoment = batch_comoment p xs\<rparr>"

definition flatten_variants :: "tensor \<Rightarrow> vec list" where
  \<comment> \<open>Modelled from the spec: the rows of a hidden-state tensor of shape
      \<open>(n, v, k, d)\<close> after the variant axis is flattened into the example axis, \<open>n * v\<close>
      rows of \<open>k * d\<close> entries.\<close>
  "flatten_variants x =
     (case shape x of
        [n, v, k, d] \<Rightarrow> map (\<lambda>i. take (k * d) (drop (i * (k * d)) (elems x))) [0..<n * v]
      | _ \<Rightarrow> [])"

definition update :: "nat \<Rightarrow> stats \<Rightarrow> tensor \<Rightarrow> stats" where
  \<comment> \<open>Modelled from the spec: \<open>EigenFitter.update\<close>, missing from the sources. Spec
      4.1: it flattens the variant axis of the batch and updates the running estimates in
      place; \<open>apply_to_layer\<close> calls it once for every training dataset.\<close>
  "update p s hiddens_t = absorb p s (flatten_variants hiddens_t)"

definition train_only :: "nat \<Rightarrow> vec list \<Rightarrow> string \<Rightarrow> vec list" where
  \<comment> \<open>what the two branches other than \<open>legacy\<close> leave in the training tensor, written
      as a function of its rows alone (used to state the lemma below)\<close>
  "train_only d xs method =
     (let m = mean_dim0 d xs;
          c = map (\<lambda>r. map2 (-) r m) xs
      in if method = ''elementwise''
         then map (\<lambda>r. map2 (*) r (map (\<lambda>n. 1 / n) (norm_dim0 d c))) c
         else map (map (\<lambda>a. a * 1)) c)"

subsection \<open>The validation split and the normalized training data\<close>

lemma rows_of_update_same:
  "rows_of (update_rows h x f) x = map f (rows_of h x)"
  by (simp add: rows_of_def update_rows_def)

lemma rows_of_update_disjoint:
  "disjoint x y \<Longrightarrow> rows_of (update_rows h y f) x = rows_of h x"
  by (auto simp: rows_of_def update_rows_def disjoint_def)

lemma length_mean_dim0: "length (mean_dim0 p xs) = p"
  by (simp add: mean_dim0_def)

lemma length_norm_dim0: "length (norm_dim0 p xs) = p"
  by (simp add: norm_dim0_def)

lemma broadcast_same: "length m = w \<Longrightarrow> broadcast w m = Inr m"
  by (simp add: broadcast_def)

lemma isub_Inr:
  "isub h x m = (Inr u, h') \<Longrightarrow>
   \<exists>m'. broadcast (width x) m = Inr m' \<and> h' = update_rows h x (\<lambda>r. map2 (-) r m')"
  by (auto simp: isub_def split: sum.splits)

lemma imul_vec_Inr:
  "imul_vec h x m = (Inr u, h') \<Longrightarrow>
   \<exists>m'. broadcast (width x) m = Inr m' \<and> h' = update_rows h x (\<lambda>r. map2 (*) r m')"
  by (auto simp: imul_vec_def split: sum.splits)

lemma isub_frame:
  "disjoint t v \<Longrightarrow> isub h v m = (res, h') \<Longrightarrow> rows_of h' t = rows_of h t"
  by (auto simp: isub_def rows_of_update_disjoint split: sum.splits)

lemma imul_vec_frame:
  "disjoint t v \<Longrightarrow> imul_vec h v m = (res, h') \<Longrightarrow> rows_of h' t = rows_of h t"
  by (auto simp: imul_vec_def rows_of_update_disjoint split: sum.splits)

lemma imul_scalar_frame:
  "disjoint t v \<Longrightarrow> rows_of (imul_scalar h v c) t = rows_of h t"
  by (simp add: imul_scalar_def rows_of_update_disjoint)

lemma isub_own:
  "length m = width t \<Longrightarrow>
   isub h t m = (Inr (), update_rows h t (\<lambda>r. map2 (-) r m))"
  by (simp add: isub_def broadcast_def)

lemma imul_vec_own:
  "length m = width t \<Longrightarrow>
   imul_vec h t m = (Inr (), update_rows h t (\<lambda>r. map2 (*) r m))"
  by (simp add: imul_vec_def broadcast_def)

lemma normalize_train_only:
  assumes ml: "method \<noteq> ''legacy''" and dj: "disjoint t v"
    and run: "normalize h t v method = (Inr r, h')"
  shows "fst r = t \<and> rows_of h' t = train_only (width t) (rows_of h t) method"
proof -
  let ?d = "width t"
  let ?m = "mean_dim0 ?d (rows_of h t)"
  let ?h1 = "update_rows h t (\<lambda>r. map2 (-) r ?m)"
  let ?c = "map (\<lambda>r. map2 (-) r ?m) (rows_of h t)"
  have s1: "isub h t ?m = (Inr (), ?h1)"
    by (rule isub_own) (simp add: length_mean_dim0)
  have c1: "rows_of ?h1 t = ?c" by (rule rows_of_update_same)
  obtain res2 h2 where s2: "isub ?h1 v ?m = (res2, h2)" by (cases "isub ?h1 v ?m")
  have c2: "rows_of h2 t = ?c" using isub_frame [OF dj s2] c1 by simp
  from run ml s1 s2 obtain u where r2: "res2 = Inr u"
    by (cases res2) (auto simp: normalize_def Let_def)
  show ?thesis
  proof (cases "method = ''elementwise''")
    case True
    let ?s = "map (\<lambda>n. 1 / n) (norm_dim0 ?d ?c)"
    let ?h3 = "update_rows h2 t (\<lambda>r. map2 (*) r ?s)"
    have s3: "imul_vec h2 t ?s = (Inr (), ?h3)"
      by (rule imul_vec_own) (simp add: length_norm_dim0)
    have c3: "rows_of ?h3 t = map (\<lambda>r. map2 (*) r ?s) ?c"
      using rows_of_update_same [of h2 t "\<lambda>r. map2 (*) r ?s"] c2 by simp
    obtain res4 h4 where s4: "imul_vec ?h3 v ?s = (res4, h4)" by (cases "imul_vec ?h3 v ?s")
    have c4: "rows_of h4 t = map (\<lambda>r. map2 (*) r ?s) ?c"
      using imul_vec_frame [OF dj s4] c3 by simp
    from run True s1 s2 r2 s3 s4 c2 have "fst r = t \<and> h' = h4"
      by (cases res4) (auto simp: normalize_def Let_def)
    with c4 True show ?thesis by (simp add: train_only_def Let_def)
  next
    case False
    with run ml s1 s2 r2 have mo: "method = ''meanonly''"
      by (auto simp: normalize_def Let_def split: if_splits)
    let ?h3 = "imul_scalar h2 t 1"
    have c3: "rows_of ?h3 t = map (map (\<lambda>a. a * 1)) ?c"
      using rows_of_update_same [of h2 t "map (\<lambda>a. a * 1)"] c2 by (simp add: imul_scalar_def)
    have c4: "rows_of (imul_scalar ?h3 v 1) t = map (map (\<lambda>a. a * 1)) ?c"
      using imul_scalar_frame [OF dj, of ?h3 1] c3 by simp
    from run mo s1 s2 r2 have "fst r = t \<and> h' = imul_scalar ?h3 v 1"
      by (auto simp: normalize_def Let_def)
    with c4 mo show ?thesis by (simp add: train_only_def Let_def)
  qed
qed


lemmas normalize_defs =
  normalize_def isub_def imul_vec_def imul_scalar_def broadcast_def update_rows_def rows_of_def
  returned_train_def store_of_def Let_def

lemmas tensor_defs =
  mean_dim0_def mean_list_def column_def vec_norm_def norm_dim0_def

lemma returned_train_only:
  assumes "method \<noteq> ''legacy''" "disjoint t v" "returned_train (normalize h t v method) = Some x"
  shows "x = train_only (width t) (rows_of h t) method"
proof -
  obtain res h' where n: "normalize h t v method = (res, h')"
    by (cases "normalize h t v method")
  with assms(3) obtain r where r: "res = Inr r" and x: "x = rows_of h' (fst r)"
    by (auto simp: returned_train_def split: sum.splits)
  from normalize_train_only [OF assms(1,2) n [unfolded r]] x show ?thesis
    by simp
qed

lemma legacy_returns_1:
  "returned_train (normalize (store_of [[1]] [[1]])
      \<lparr>buf = 0, off = 0, nrows = 1, width = 1\<rparr> \<lparr>buf = 1, off = 0, nrows = 1, width = 1\<rparr>
      ''legacy'') = Some [[0]]"
  by (simp add: normalize_defs tensor_defs)

lemma legacy_returns_3:
  "returned_train (normalize (store_of [[1]] [[3]])
      \<lparr>buf = 0, off = 0, nrows = 1, width = 1\<rparr> \<lparr>buf = 1, off = 0, nrows = 1, width = 1\<rparr>
      ''legacy'') = Some [[- 1 / 2]]"
  by (simp add: normalize_defs tensor_defs)

lemma meanonly_separate:
  "returned_train (normalize (store_of [[1], [3]] [[5]])
      \<lparr>buf = 0, off = 0, nrows = 2, width = 1\<rparr> \<lparr>buf = 1, off = 0, nrows = 1, width = 1\<rparr>
      ''meanonly'') = Some [[- 1], [1]]"
  by (simp add: normalize_defs tensor_defs upt_rec)

lemma meanonly_same_object:
  "returned_train (normalize (store_of [[1], [3]] [[5]])
      \<lparr>buf = 0, off = 0, nrows = 2, width = 1\<rparr> \<lparr>buf = 0, off = 0, nrows = 2, width = 1\<rparr>
      ''meanonly'') = Some [[- 3], [- 1]]"
  by (simp add: normalize_defs tensor_defs upt_rec)

lemma meanonly_overlapping_view:
  "returned_train (normalize (store_of [[1], [3]] [[5]])
      \<lparr>buf = 0, off = 0, nrows = 2, width = 1\<rparr> \<lparr>buf = 0, off = 0, nrows = 1, width = 1\<rparr>
      ''meanonly'') = Some [[- 3], [1]]"
  by (simp add: normalize_defs tensor_defs upt_rec)

lemma meanonly_broadcast:
  "returned_train (normalize (store_of [[1], [3]] [[5, 6, 7]])
      \<lparr>buf = 0, off = 0, nrows = 2, width = 1\<rparr> \<lparr>buf = 1, off = 0, nrows = 1, width = 3\<rparr>
      ''meanonly'') = Some [[- 1], [1]]"
  by (simp add: normalize_defs tensor_defs upt_rec)

lemma elementwise_width_mismatch:
  "returned_train (normalize (store_of [[1, 2], [3, 4]] [[5, 6, 7]])
      \<lparr>buf = 0, off = 0, nrows = 2, width = 2\<rparr> \<lparr>buf = 1, off = 0, nrows = 1, width = 3\<rparr>
      ''meanonly'') = None"
  by (simp add: normalize_defs tensor_defs upt_rec)


text \<open>
  C10, as the claim states it, fails for \<open>meanonly\<close>: three calls on the same store and
  the same training tensor that differ in the validation argument only return three
  different training tensors. With a validation tensor in a buffer of its own the
  training rows (1), (3) become (-1), (1); with the training tensor itself as validation
  argument the mean is subtracted twice, (-3), (-1); with a view of the first training
  row it is subtracted twice from that row, (-3), (1).
\<close>

theorem normalize_shared_memory_counterexample:
  "returned_train (normalize (store_of [[1], [3]] [[5]])
      \<lparr>buf = 0, off = 0, nrows = 2, width = 1\<rparr> \<lparr>buf = 1, off = 0, nrows = 1, width = 1\<rparr>
      ''meanonly'') = Some [[- 1], [1]]
   \<and> returned_train (normalize (store_of [[1], [3]] [[5]])
      \<lparr>buf = 0, off = 0, nrows = 2, width = 1\<rparr> \<lparr>buf = 0, off = 0, nrows = 2, width = 1\<rparr>
      ''meanonly'') = Some [[- 3], [- 1]]
   \<and> returned_train (normalize (store_of [[1], [3]] [[5]])
      \<lparr>buf = 0, off = 0, nrows = 2, width = 1\<rparr> \<lparr>buf = 0, off = 0, nrows = 1, width = 1\<rparr>
      ''meanonly'') = Some [[- 3], [1]]
   \<and> returned_train (normalize (store_of [[1], [3]] [[5]])
      \<lparr>buf = 0, off = 0, nrows = 2, width = 1\<rparr> \<lparr>buf = 1, off = 0, nrows = 1, width = 1\<rparr>
      ''meanonly'')
     \<noteq> returned_train (normalize (store_of [[1], [3]] [[5]])
      \<lparr>buf = 0, off = 0, nrows = 2, width = 1\<rparr> \<lparr>buf = 0, off = 0, nrows = 2, width = 1\<rparr>
      ''meanonly'')"
  using meanonly_separate meanonly_same_object meanonly_overlapping_view by simp

text \<open>
  C10, amended. For the methods \<open>elementwise\<close> and \<open>meanonly\<close>, two calls of
  \<open>normalize\<close> on the same training rows that both return, return equal training
  tensors, whatever the validation tensors are, provided the validation tensor shares no
  memory with the training tensor. For the method \<open>legacy\<close> this fails also for
  tensors that share no memory: there are two calls on the same training rows,
  differing in the validation rows only, that return different training tensors,
  because mean and scale are taken from the concatenation of both.
\<close>

theorem normalize_val_noninterference:
  "((method = ''elementwise'' \<or> method = ''meanonly'') \<and> disjoint t v1 \<and> disjoint t v2
      \<and> rows_of h1 t = rows_of h2 t
      \<and> returned_train (normalize h1 t v1 method) = Some x1
      \<and> returned_train (normalize h2 t v2 method) = Some x2
     \<longrightarrow> x1 = x2)
   \<and> (\<exists>h1 h2 t v x1 x2. disjoint t v \<and> rows_of h1 t = rows_of h2 t
        \<and> returned_train (normalize h1 t v ''legacy'') = Some x1
        \<and> returned_train (normalize h2 t v ''legacy'') = Some x2 \<and> x1 \<noteq> x2)"
proof (intro conjI impI)
  assume a: "(method = ''elementwise'' \<or> method = ''meanonly'') \<and> disjoint t v1 \<and> disjoint t v2
      \<and> rows_of h1 t = rows_of h2 t
      \<and> returned_train (normalize h1 t v1 method) = Some x1
      \<and> returned_train (normalize h2 t v2 method) = Some x2"
  then have m: "method \<noteq> ''legacy''" by auto
  from a have "x1 = train_only (width t) (rows_of h1 t) method"
    using returned_train_only [OF m, of t v1 h1 x1] by simp
  moreover from a have "x2 = train_only (width t) (rows_of h2 t) method"
    using returned_train_only [OF m, of t v2 h2 x2] by simp
  ultimately show "x1 = x2" using a by simp
next
  let ?t = "\<lparr>buf = 0, off = 0, nrows = 1, width = 1\<rparr>"
  let ?v = "\<lparr>buf = 1, off = 0, nrows = 1, width = 1\<rparr>"
  let ?h1 = "store_of [[1]] [[1]]"
  let ?h2 = "store_of [[1]] [[3]]"
  have "disjoint ?t ?v \<and> rows_of ?h1 ?t = rows_of ?h2 ?t
      \<and> returned_train (normalize ?h1 ?t ?v ''legacy'') = Some [[0]]
      \<and> returned_train (normalize ?h2 ?t ?v ''legacy'') = Some [[- 1 / 2]]
      \<and> [[0::real]] \<noteq> [[- 1 / 2]]"
    using legacy_returns_1 legacy_returns_3
    by (simp add: store_of_def disjoint_def rows_of_def)
  then show "\<exists>h1 h2 t v x1 x2. disjoint t v \<and> rows_of h1 t = rows_of h2 t
        \<and> returned_train (normalize h1 t v ''legacy'') = Some x1
        \<and> returned_train (normalize h2 t v ''legacy'') = Some x2 \<and> x1 \<noteq> x2"
    by blast
qed

theorem normalize_val_noninterference_witness:
  "returned_train (normalize (store_of [[1], [3]] [[5]])
      \<lparr>buf = 0, off = 0, nrows = 2, width = 1\<rparr> \<lparr>buf = 1, off = 0, nrows = 1, width = 1\<rparr>
      ''meanonly'')
   = returned_train (normalize (store_of [[1], [3]] [[5, 6, 7]])
      \<lparr>buf = 0, off = 0, nrows = 2, width = 1\<rparr> \<lparr>buf = 1, off = 0, nrows = 1, width = 3\<rparr>
      ''meanonly'')
   \<and> returned_train (normalize (store_of [[1], [3]] [[5, 6, 7]])
      \<lparr>buf = 0, off = 0, nrows = 2, width = 1\<rparr> \<lparr>buf = 1, off = 0, nrows = 1, width = 3\<rparr>
      ''meanonly'') = Some [[- 1], [1]]"
proof -
  let ?t = "\<lparr>buf = 0, off = 0, nrows = 2, width = 1\<rparr>"
  let ?v1 = "\<lparr>buf = 1, off = 0, nrows = 1, width = 1\<rparr>"
  let ?v2 = "\<lparr>buf = 1, off = 0, nrows = 1, width = 3\<rparr>"
  let ?h1 = "store_of [[1], [3]] [[5]]"
  let ?h2 = "store_of [[1], [3]] [[5, 6, 7]]"
  have r2: "returned_train (normalize ?h2 ?t ?v2 ''meanonly'') = Some [[- 1], [1]]"
    by (rule meanonly_broadcast)
  obtain y where r1: "returned_train (normalize ?h1 ?t ?v1 ''meanonly'') = Some y"
    using meanonly_separate by blast
  have d: "disjoint ?t ?v1 \<and> disjoint ?t ?v2" by (simp add: disjoint_def)
  have e: "rows_of ?h1 ?t = rows_of ?h2 ?t" by (simp add: rows_of_def store_of_def)
  from r1 r2 d e have "y = [[- 1], [1]]"
    using normalize_val_noninterference
      [of "''meanonly''" ?t ?v1 ?v2 ?h1 ?h2 y "[[- 1], [1]]"]
    by blast
  with r1 r2 show ?thesis by simp
qed

subsection \<open>The range of a probe and the direction of calibration\<close>

lemma sigmoid_pos: "0 < sigmoid z"
  by (simp add: sigmoid_def add_pos_pos)

lemma sigmoid_lt_1: "sigmoid z < 1"
proof -
  have "0 < 1 + exp (- z)" by (simp add: add_pos_pos)
  then show ?thesis by (simp add: sigmoid_def divide_less_eq)
qed

lemma sigmoid_mono: "z1 \<le> z2 \<Longrightarrow> sigmoid z1 \<le> sigmoid z2"
  unfolding sigmoid_def
  by (intro divide_left_mono) (auto simp: add_pos_pos)

lemma sigmoid_strict_mono: "z1 < z2 \<Longrightarrow> sigmoid z1 < sigmoid z2"
  unfolding sigmoid_def
  by (intro divide_strict_left_mono) (auto simp: add_pos_pos)

lemma max_f32_pos: "0 < max_f32"
  by (simp add: max_f32_def)

lemma rnd_Fin: "\<bar>r\<bar> \<le> max_f32 \<Longrightarrow> rnd r = Fin r"
  by (auto simp: rnd_def)

lemma fsigmoid_range: "fsigmoid z = NaN \<or> in_unit (fsigmoid z)"
  using sigmoid_pos sigmoid_lt_1
  by (cases z) (auto intro: less_imp_le)

lemma fsigmoid_in_unit: "z \<noteq> NaN \<Longrightarrow> in_unit (fsigmoid z)"
  using fsigmoid_range [of z] by (cases z) auto

lemma forward_range:
  "forward l xs = Inr ys \<Longrightarrow> \<forall>row \<in> set ys. \<forall>y \<in> set row. y = NaN \<or> in_unit y"
proof (induction xs arbitrary: ys)
  case Nil
  then show ?case by simp
next
  case (Cons x xs)
  from Cons.prems obtain z ys' where z: "linear_apply l x = Inr z"
    and r: "forward l xs = Inr ys'" and ys: "ys = [fsigmoid z] # ys'"
    by (auto split: sum.splits)
  from Cons.IH [OF r] fsigmoid_range [of z] show ?case
    unfolding ys by auto
qed

lemma foldl_fadd_Fin:
  "\<bar>a\<bar> + sum_list (map abs ps) \<le> max_f32 \<Longrightarrow>
   foldl fadd (Fin a) (map rnd ps) = Fin (a + sum_list ps)"
proof (induction ps arbitrary: a)
  case Nil
  then show ?case by simp
next
  case (Cons p ps)
  have nn: "0 \<le> sum_list (map abs ps)" by (rule sum_list_nonneg) auto
  from Cons.prems nn have p: "\<bar>p\<bar> \<le> max_f32" by simp
  from Cons.prems nn have ap: "\<bar>a + p\<bar> \<le> max_f32" by simp
  from Cons.prems have "\<bar>a + p\<bar> + sum_list (map abs ps) \<le> max_f32" by simp
  from Cons.IH [OF this] show ?case
    by (simp add: rnd_Fin [OF p] rnd_Fin [OF ap] add.assoc)
qed


lemma fdot_Fin:
  assumes "sum_list (map2 (\<lambda>a b. \<bar>a * b\<bar>) x w) \<le> max_f32"
  shows "fdot x w = Fin (sum_list (map2 (*) x w))"
proof -
  have a: "map abs (map2 (*) x w) = map2 (\<lambda>a b. \<bar>a * b\<bar>) x w"
    by (simp add: case_prod_unfold)
  have r: "map rnd (map2 (*) x w) = map2 (\<lambda>a b. rnd (a * b)) x w"
    by (simp add: case_prod_unfold)
  from assms have "\<bar>0::real\<bar> + sum_list (map abs (map2 (*) x w)) \<le> max_f32"
    unfolding a by simp
  from foldl_fadd_Fin [OF this] show ?thesis
    by (simp add: fdot_def r [symmetric])
qed

lemma linear_apply_no_overflow:
  assumes len: "length x = length (weight l)" and no: "no_overflow l x"
  shows "\<exists>r. linear_apply l x = Inr (Fin r)"
proof -
  let ?ps = "map2 (*) x (weight l)"
  have a: "map abs ?ps = map2 (\<lambda>a b. \<bar>a * b\<bar>) x (weight l)"
    by (simp add: case_prod_unfold)
  have abs_le: "\<bar>sum_list ?ps\<bar> \<le> sum_list (map2 (\<lambda>a b. \<bar>a * b\<bar>) x (weight l))"
    using sum_list_abs [of ?ps] by (simp only: a)
  show ?thesis
  proof (cases "bias l")
    case None
    with no have "sum_list (map2 (\<lambda>a b. \<bar>a * b\<bar>) x (weight l)) \<le> max_f32"
      by (simp add: no_overflow_def)
    from fdot_Fin [OF this] len None show ?thesis
      by (simp add: linear_apply_def)
  next
    case (Some b)
    with no have t: "sum_list (map2 (\<lambda>a b. \<bar>a * b\<bar>) x (weight l)) + \<bar>b\<bar> \<le> max_f32"
      by (simp add: no_overflow_def)
    then have "sum_list (map2 (\<lambda>a b. \<bar>a * b\<bar>) x (weight l)) \<le> max_f32" by simp
    note d = fdot_Fin [OF this]
    from t abs_le have "\<bar>sum_list ?ps + b\<bar> \<le> max_f32" by simp
    from rnd_Fin [OF this] d len Some show ?thesis
      by (simp add: linear_apply_def)
  qed
qed

lemma forward_no_overflow:
  "list_all (\<lambda>x. length x = length (weight l) \<and> no_overflow l x) xs \<Longrightarrow>
   \<exists>ys. forward l xs = Inr ys \<and> (\<forall>row \<in> set ys. \<forall>y \<in> set row. in_unit y)"
proof (induction xs)
  case Nil
  then show ?case by simp
next
  case (Cons x xs)
  then obtain r where r: "linear_apply l x = Inr (Fin r)"
    using linear_apply_no_overflow [of x l] by auto
  from Cons obtain ys where ys: "forward l xs = Inr ys"
    "\<forall>row \<in> set ys. \<forall>y \<in> set row. in_unit y" by auto
  have "in_unit (fsigmoid (Fin r))" by (rule fsigmoid_in_unit) simp
  with r ys show ?case by auto
qed

lemma platt_mono: "0 \<le> s \<Longrightarrow> mono (platt s b)"
  by (auto simp: mono_def platt_def intro!: sigmoid_mono mult_left_mono)

lemma platt_antimono: "s \<le> 0 \<Longrightarrow> antimono (platt s b)"
  by (auto simp: antimono_def platt_def intro!: sigmoid_mono mult_left_mono_neg)

lemma platt_strict_reverse: "s < 0 \<Longrightarrow> r1 < r2 \<Longrightarrow> platt s b r2 < platt s b r1"
  by (auto simp: platt_def intro!: sigmoid_strict_mono mult_strict_left_mono_neg)

lemma forward_overflow:
  "forward \<lparr>weight = [300000000000000000000000000000000000000,
                        - 300000000000000000000000000000000000000], bias = None\<rparr>
     [[300000000000000000000000000000000000000, 300000000000000000000000000000000000000]]
   = Inr [[NaN]]"
  by (simp add: linear_apply_def fdot_def rnd_def max_f32_def)

text \<open>
  C8, as the claim states it, fails. The input (3e38, 3e38) is finite and within the
  range of float32, and so are the weights (3e38, -3e38) of the probe; the two products
  overflow to plus and minus infinity, their sum is NaN, and NaN is what
  \<open>LinearProbe.forward\<close> returns: not a number of [0,1]. And a calibration with a
  negative scale reverses the order of the raw scores: the raw score 0 is below 1, the
  calibrated probability of 0 is above that of 1.
\<close>

theorem credence_range_counterexample:
  "forward \<lparr>weight = [300000000000000000000000000000000000000,
                        - 300000000000000000000000000000000000000], bias = None\<rparr>
     [[300000000000000000000000000000000000000, 300000000000000000000000000000000000000]]
   = Inr [[NaN]]
   \<and> \<bar>300000000000000000000000000000000000000\<bar> \<le> max_f32
   \<and> (0::real) < 1 \<and> platt (- 1) 0 1 < platt (- 1) 0 0"
proof -
  have "platt (- 1) 0 1 < platt (- 1) 0 0"
    by (rule platt_strict_reverse) simp_all
  with forward_overflow show ?thesis by (simp add: max_f32_def)
qed

text \<open>
  C8, amended. Every coordinate \<open>LinearProbe.forward\<close> returns is NaN or a number of
  [0,1]; on finite inputs of the probe's dimension whose projection does not overflow
  the forward pass returns and every coordinate is a number of [0,1]. The squashing
  function \<open>sigmoid\<close> is monotone. The calibrated probability
  \<open>sigmoid (scale * raw + bias)\<close> of a finite raw score lies in [0,1]; it rises with the
  raw score when the fitted scale is not negative and falls with it when the scale is
  not positive.
\<close>

theorem reporter_credence_range_monotone:
  "(forward l xs = Inr ys \<longrightarrow> (\<forall>row \<in> set ys. \<forall>y \<in> set row. y = NaN \<or> in_unit y))
   \<and> (list_all (\<lambda>x. length x = length (weight l) \<and> no_overflow l x) xs \<longrightarrow>
        (\<exists>ys. forward l xs = Inr ys \<and> (\<forall>row \<in> set ys. \<forall>y \<in> set row. in_unit y)))
   \<and> (z1 \<le> z2 \<longrightarrow> sigmoid z1 \<le> sigmoid z2)
   \<and> 0 \<le> platt s b raw \<and> platt s b raw \<le> 1
   \<and> (0 \<le> s \<and> r1 \<le> r2 \<longrightarrow> platt s b r1 \<le> platt s b r2)
   \<and> (s \<le> 0 \<and> r1 \<le> r2 \<longrightarrow> platt s b r2 \<le> platt s b r1)"
proof (intro conjI impI)
  assume "forward l xs = Inr ys"
  then show "\<forall>row \<in> set ys. \<forall>y \<in> set row. y = NaN \<or> in_unit y"
    by (rule forward_range)
next
  assume "list_all (\<lambda>x. length x = length (weight l) \<and> no_overflow l x) xs"
  then show "\<exists>ys. forward l xs = Inr ys \<and> (\<forall>row \<in> set ys. \<forall>y \<in> set row. in_unit y)"
    by (rule forward_no_overflow)
next
  assume "z1 \<le> z2" then show "sigmoid z1 \<le> sigmoid z2" by (rule sigmoid_mono)
next
  show "0 \<le> platt s b raw" using sigmoid_pos [of "s * raw + b"] by (simp add: platt_def)
next
  show "platt s b raw \<le> 1" using sigmoid_lt_1 [of "s * raw + b"] by (simp add: platt_def)
next
  assume "0 \<le> s \<and> r1 \<le> r2"
  then show "platt s b r1 \<le> platt s b r2"
    using platt_mono [of s b] by (auto dest: monoD)
next
  assume "s \<le> 0 \<and> r1 \<le> r2"
  then show "platt s b r2 \<le> platt s b r1"
    using platt_antimono [of s b] by (auto dest: antimonoD)
qed

theorem reporter_credence_range_monotone_witness:
  "forward \<lparr>weight = [1 / 2, - 1], bias = Some (1 / 4)\<rparr> [[2, 1]] = Inr [[Fin (sigmoid (1 / 4))]]
   \<and> in_unit (Fin (sigmoid (1 / 4)))
   \<and> sigmoid 0 \<le> sigmoid 1
   \<and> 0 \<le> platt 2 0 1 \<and> platt 2 0 1 \<le> 1
   \<and> platt 2 0 0 \<le> platt 2 0 1
   \<and> platt (- 1) 0 1 \<le> platt (- 1) 0 0"
proof -
  let ?l = "\<lparr>weight = [1 / 2, - 1], bias = Some (1 / 4)\<rparr>"
  have f: "forward ?l [[2, 1]] = Inr [[Fin (sigmoid (1 / 4))]]"
    by (simp add: linear_apply_def fdot_def rnd_def max_f32_def)
  have n: "list_all (\<lambda>x. length x = length (weight ?l) \<and> no_overflow ?l x) [[2, 1]]"
    by (simp add: no_overflow_def max_f32_def)
  note up = reporter_credence_range_monotone
    [where l = ?l and xs = "[[2, 1]]" and ?z1.0 = 0 and ?z2.0 = 1 and s = 2 and b = 0
       and raw = 1 and ?r1.0 = 0 and ?r2.0 = 1]
  note down = reporter_credence_range_monotone
    [where l = ?l and xs = "[[2, 1]]" and ?z1.0 = 0 and ?z2.0 = 1 and s = "- 1" and b = 0
       and raw = 1 and ?r1.0 = 0 and ?r2.0 = 1]
  from up n f have u: "in_unit (Fin (sigmoid (1 / 4)))" by auto
  from up have m: "sigmoid 0 \<le> sigmoid 1" by simp
  from up have p: "0 \<le> platt 2 0 1 \<and> platt 2 0 1 \<le> 1" by blast
  from up have a: "platt 2 0 0 \<le> platt 2 0 1" by simp
  from down have d: "platt (- 1) 0 1 \<le> platt (- 1) 0 0" by simp
  from f u m p a d show ?thesis by blast
qed

subsection \<open>Shape validation comes first\<close>

lemma all_equal_dim_True:
  "all_equal_dim i x bs = Inr True \<Longrightarrow> \<forall>b \<in> set bs. shape_neg (shape (hiddens b)) i = Inr x"
  by (induction bs) (auto split: sum.splits if_splits)

lemma all_equal_dim_False:
  "all_equal_dim i x bs = Inr False \<Longrightarrow> \<exists>b \<in> set bs. \<exists>y. shape_neg (shape (hiddens b)) i = Inr y \<and> y \<noteq> x"
  by (induction bs) (auto split: sum.splits if_splits)

lemma all_equal_dim_4d:
  "\<forall>b \<in> set bs. length (shape (hiddens b)) = 4 \<Longrightarrow> 0 < i \<Longrightarrow> i \<le> 4 \<Longrightarrow>
   all_equal_dim i x bs = Inr (\<forall>b \<in> set bs. shape (hiddens b) ! (4 - i) = x)"
  by (induction bs) (auto simp: shape_neg_def split: sum.splits if_splits)

lemma unpack4_Inr:
  "unpack4 s = Inr (n, v, k, d) \<longleftrightarrow> s = [n, v, k, d]"
  by (auto simp: unpack4_def split: list.splits)

lemma unpack4_4d:
  "length s = 4 \<Longrightarrow> unpack4 s = Inr (s ! 0, s ! 1, s ! 2, s ! 3)"
  by (auto simp: unpack4_def split: list.splits)

lemma validate_Inr:
  assumes "validate bs = Inr (f, v, k, d)"
  shows "bs \<noteq> [] \<and> f = hd bs \<and> (\<exists>n. shape (hiddens f) = [n, v, k, d])
     \<and> (\<forall>b \<in> set bs. shape_neg (shape (hiddens b)) 1 = Inr d)
     \<and> (\<forall>b \<in> set bs. shape_neg (shape (hiddens b)) 2 = Inr k)"
  using assms
  by (cases bs)
     (auto simp: validate_def unpack4_Inr shape_neg_def
           split: sum.splits if_splits prod.splits dest!: all_equal_dim_True)

lemma mr_rng: "make_reproducible s (w\<lparr>rng := g\<rparr>) = make_reproducible s w"
  by (simp add: make_reproducible_def emit_def)

lemma apply_to_layer_validate_error:
  "validate (map snd train_dict) = Inl e \<Longrightarrow>
   apply_to_layer X self lyr train_dict val_dict w0
     = (Inl e, make_reproducible (seed (net self) + lyr) w0)"
  by (simp add: apply_to_layer_def)


lemma validate_4d:
  assumes "bs \<noteq> []" "\<forall>b \<in> set bs. length (shape (hiddens b)) = 4"
  shows "validate bs =
     (if \<not> (\<forall>b \<in> set (tl bs). shape (hiddens b) ! 3 = shape (hiddens (hd bs)) ! 3)
      then Inl (ValueError ''All datasets must have the same hidden state size'')
      else if \<not> (\<forall>b \<in> set (tl bs). shape (hiddens b) ! 2 = shape (hiddens (hd bs)) ! 2)
      then Inl (ValueError ''All datasets must have the same number of classes'')
      else Inr (hd bs, shape (hiddens (hd bs)) ! 1, shape (hiddens (hd bs)) ! 2,
                shape (hiddens (hd bs)) ! 3))"
proof (cases bs)
  case Nil
  with assms show ?thesis by simp
next
  case (Cons f rest)
  with assms have f: "length (shape (hiddens f)) = 4"
    and r: "\<forall>b \<in> set rest. length (shape (hiddens b)) = 4" by auto
  have d: "all_equal_dim (Suc 0) x rest = Inr (\<forall>b \<in> set rest. shape (hiddens b) ! 3 = x)" for x
    using all_equal_dim_4d [OF r, of "Suc 0" x] by simp
  have k: "all_equal_dim 2 x rest = Inr (\<forall>b \<in> set rest. shape (hiddens b) ! 2 = x)" for x
    using all_equal_dim_4d [OF r, of 2 x] by simp
  show ?thesis
    by (simp add: validate_def Cons unpack4_4d [OF f] d k)
qed

lemma fit_reporter_ccs_many:
  "length train_dict \<noteq> 1 \<Longrightarrow>
   fit_reporter X (CcsConfig s) train_dict f v k d w
     = (Inl (AssertionError ''CCS only supports single-task training''), w)"
  by (simp add: fit_reporter_def)

lemma fit_reporter_other:
  "fit_reporter X (OtherConfig name s) train_dict f v k d w
     = (Inl (ValueError (''Unknown reporter config type: <class '' @ [CHR 0x27] @ name
                  @ [CHR 0x27] @ ''>'')), w)"
  by (simp add: fit_reporter_def)

text \<open>
  C3. When two prepared training datasets differ in the last axis of their hidden states
  (the hidden dimension) or in the last but one (the class count), \<open>apply_to_layer\<close>
  returns an error and has done nothing but seed the random generators: no directory is
  created, nothing is fitted, saved or evaluated. For four-dimensional hidden states the
  error is one of the two \<open>ValueError\<close>s of the validation.
\<close>

theorem shape_mismatch_aborts_layer:
  "((\<exists>a \<in> set (map snd train_dict). \<exists>b \<in> set (map snd train_dict).
        shape_neg (shape (hiddens a)) 1 \<noteq> shape_neg (shape (hiddens b)) 1)
    \<or> (\<exists>a \<in> set (map snd train_dict). \<exists>b \<in> set (map snd train_dict).
        shape_neg (shape (hiddens a)) 2 \<noteq> shape_neg (shape (hiddens b)) 2))
   \<longrightarrow> (\<exists>e. apply_to_layer X self lyr train_dict val_dict w0
              = (Inl e, w0\<lparr>rng := seed (net self) + lyr,
                           trace := trace w0 @ [MakeReproducible (seed (net self) + lyr)]\<rparr>)
            \<and> ((\<forall>b \<in> set (map snd train_dict). length (shape (hiddens b)) = 4) \<longrightarrow>
                 e = ValueError ''All datasets must have the same hidden state size''
               \<or> e = ValueError ''All datasets must have the same number of classes''))"
proof (intro impI)
  let ?bs = "map snd train_dict"
  assume mm: "(\<exists>a \<in> set ?bs. \<exists>b \<in> set ?bs.
        shape_neg (shape (hiddens a)) 1 \<noteq> shape_neg (shape (hiddens b)) 1)
    \<or> (\<exists>a \<in> set ?bs. \<exists>b \<in> set ?bs.
        shape_neg (shape (hiddens a)) 2 \<noteq> shape_neg (shape (hiddens b)) 2)"
  have "\<exists>e. validate ?bs = Inl e"
  proof (cases "validate ?bs")
    case (Inl e)
    then show ?thesis by blast
  next
    case (Inr r)
    obtain f v k d where "r = (f, v, k, d)" by (cases r) auto
    with Inr validate_Inr [of ?bs f v k d] mm show ?thesis by auto
  qed
  then obtain e where e: "validate ?bs = Inl e" by blast
  have run: "apply_to_layer X self lyr train_dict val_dict w0
      = (Inl e, w0\<lparr>rng := seed (net self) + lyr,
                   trace := trace w0 @ [MakeReproducible (seed (net self) + lyr)]\<rparr>)"
    using apply_to_layer_validate_error [OF e]
    by (simp add: make_reproducible_def emit_def)
  have "e = ValueError ''All datasets must have the same hidden state size''
      \<or> e = ValueError ''All datasets must have the same number of classes''"
    if four: "\<forall>b \<in> set ?bs. length (shape (hiddens b)) = 4"
  proof -
    from mm have ne: "?bs \<noteq> []" by auto
    from validate_4d [OF ne four] e show ?thesis
      by (auto split: if_splits)
  qed
  with run show "\<exists>e. apply_to_layer X self lyr train_dict val_dict w0
              = (Inl e, w0\<lparr>rng := seed (net self) + lyr,
                           trace := trace w0 @ [MakeReproducible (seed (net self) + lyr)]\<rparr>)
            \<and> ((\<forall>b \<in> set (map snd train_dict). length (shape (hiddens b)) = 4) \<longrightarrow>
                 e = ValueError ''All datasets must have the same hidden state size''
               \<or> e = ValueError ''All datasets must have the same number of classes'')"
    by blast
qed


theorem shape_mismatch_aborts_layer_witness:
  "\<exists>e. apply_to_layer (const_collaborators \<lparr>shape = [1], elems = [0]\<rparr> \<lparr>shape = [1], elems = [1]\<rparr>)
          \<lparr>net = EigenFitterConfig 0, supervised = ''single'', out_dir = Some ''out''\<rparr> 3
          [(''imdb'', hs [1, 1, 2, 8]), (''amazon'', hs [1, 1, 2, 9])] []
          \<lparr>rng = 0, trace = []\<rparr>
        = (Inl e, \<lparr>rng = 3, trace = [MakeReproducible 3]\<rparr>)
      \<and> (e = ValueError ''All datasets must have the same hidden state size''
         \<or> e = ValueError ''All datasets must have the same number of classes'')"
proof -
  let ?td = "[(''imdb'', hs [1, 1, 2, 8]), (''amazon'', hs [1, 1, 2, 9])]"
  have h: "\<exists>a \<in> set (map snd ?td). \<exists>b \<in> set (map snd ?td).
        shape_neg (shape (hiddens a)) 1 \<noteq> shape_neg (shape (hiddens b)) 1"
    by (auto simp: hs_def shape_neg_def)
  have four: "\<forall>b \<in> set (map snd ?td). length (shape (hiddens b)) = 4"
    by (simp add: hs_def)
  let ?X = "const_collaborators \<lparr>shape = [1], elems = [0]\<rparr> \<lparr>shape = [1], elems = [1]\<rparr>"
  let ?self = "\<lparr>net = EigenFitterConfig 0, supervised = ''single'', out_dir = Some ''out''\<rparr>"
  let ?w0 = "\<lparr>rng = 0, trace = []\<rparr> :: unit world"
  have "\<exists>e. apply_to_layer ?X ?self 3 ?td [] ?w0
        = (Inl e, ?w0\<lparr>rng := seed (net ?self) + 3,
                      trace := trace ?w0 @ [MakeReproducible (seed (net ?self) + 3)]\<rparr>)
      \<and> (e = ValueError ''All datasets must have the same hidden state size''
         \<or> e = ValueError ''All datasets must have the same number of classes'')"
    using h four shape_mismatch_aborts_layer [of ?td ?X ?self 3 "[]" ?w0]
    by blast
  then show ?thesis by simp
qed

text \<open>
  C4. With the CCS configuration and more than one training dataset, \<open>apply_to_layer\<close>
  ends in an error: nothing is fitted, the trace holds the seeding and at most the
  creation of the output directories. When the shapes pass the validation and an output
  directory is set, the error is the assertion \<open>CCS only supports single-task training\<close>.
\<close>

theorem ccs_rejects_multiple_datasets:
  "net self = CcsConfig s \<and> 1 < length train_dict \<longrightarrow>
     (\<exists>e es. fst (apply_to_layer X self lyr train_dict val_dict w0) = Inl e
        \<and> trace (snd (apply_to_layer X self lyr train_dict val_dict w0)) = trace w0 @ es
        \<and> set es \<subseteq> {MakeReproducible (s + lyr)} \<union> range CreateModelsDir
        \<and> ((\<exists>r. validate (map snd train_dict) = Inr r) \<and> (\<exists>dir. out_dir self = Some dir)
             \<longrightarrow> e = AssertionError ''CCS only supports single-task training''))"
proof (intro impI)
  assume a: "net self = CcsConfig s \<and> 1 < length train_dict"
  then have n: "net self = CcsConfig s" and l: "length train_dict \<noteq> 1" by auto
  let ?R = "apply_to_layer X self lyr train_dict val_dict w0"
  let ?goal = "\<exists>e es. fst ?R = Inl e \<and> trace (snd ?R) = trace w0 @ es
        \<and> set es \<subseteq> {MakeReproducible (s + lyr)} \<union> range CreateModelsDir
        \<and> ((\<exists>r. validate (map snd train_dict) = Inr r) \<and> (\<exists>dir. out_dir self = Some dir)
             \<longrightarrow> e = AssertionError ''CCS only supports single-task training'')"
  show ?goal
  proof (cases "validate (map snd train_dict)")
    case (Inl e)
    then have "?R = (Inl e, make_reproducible (s + lyr) w0)"
      by (simp add: apply_to_layer_def n)
    then have "fst ?R = Inl e \<and> trace (snd ?R) = trace w0 @ [MakeReproducible (s + lyr)]"
      by (simp add: make_reproducible_def emit_def)
    with Inl show ?thesis by auto
  next
    case (Inr r)
    obtain f v k d where r: "r = (f, v, k, d)" by (cases r) auto
    show ?thesis
    proof (cases "out_dir self")
      case None
      with Inr r have "?R = (Inl (TypeError ''Expected Path, got NoneType''),
          make_reproducible (s + lyr) w0)"
        by (simp add: apply_to_layer_def n)
      then have "fst ?R = Inl (TypeError ''Expected Path, got NoneType'')
          \<and> trace (snd ?R) = trace w0 @ [MakeReproducible (s + lyr)]"
        by (simp add: make_reproducible_def emit_def)
      with None show ?thesis by auto
    next
      case (Some dir)
      with Inr r have "?R = (Inl (AssertionError ''CCS only supports single-task training''),
          emit [CreateModelsDir dir] (make_reproducible (s + lyr) w0))"
        by (simp add: apply_to_layer_def n fit_reporter_ccs_many [OF l])
      then have "fst ?R = Inl (AssertionError ''CCS only supports single-task training'')
          \<and> trace (snd ?R) = trace w0 @ [MakeReproducible (s + lyr), CreateModelsDir dir]"
        by (simp add: make_reproducible_def emit_def)
      then show ?thesis by auto
    qed
  qed
qed

theorem ccs_rejects_multiple_datasets_witness:
  "\<exists>es. fst (apply_to_layer (const_collaborators \<lparr>shape = [1], elems = [0]\<rparr> \<lparr>shape = [1], elems = [1]\<rparr>)
          \<lparr>net = CcsConfig 0, supervised = ''single'', out_dir = Some ''out''\<rparr> 3
          [(''imdb'', hs [1, 1, 2, 8]), (''amazon'', hs [1, 3, 2, 8])] []
          \<lparr>rng = 0, trace = []\<rparr>) = Inl (AssertionError ''CCS only supports single-task training'')
      \<and> trace (snd (apply_to_layer (const_collaborators \<lparr>shape = [1], elems = [0]\<rparr> \<lparr>shape = [1], elems = [1]\<rparr>)
          \<lparr>net = CcsConfig 0, supervised = ''single'', out_dir = Some ''out''\<rparr> 3
          [(''imdb'', hs [1, 1, 2, 8]), (''amazon'', hs [1, 3, 2, 8])] []
          \<lparr>rng = 0, trace = []\<rparr>)) = es
      \<and> set es \<subseteq> {MakeReproducible 3} \<union> range CreateModelsDir"
proof -
  let ?td = "[(''imdb'', hs [1, 1, 2, 8]), (''amazon'', hs [1, 3, 2, 8])]"
  have v: "validate (map snd ?td) = Inr (hs [1, 1, 2, 8], 1, 2, 8)"
    by (simp add: validate_def unpack4_def hs_def shape_neg_def)
  show ?thesis
    using ccs_rejects_multiple_datasets
      [of "\<lparr>net = CcsConfig 0, supervised = ''single'', out_dir = Some ''out''\<rparr>" 0 ?td
          "const_collaborators \<lparr>shape = [1], elems = [0]\<rparr> \<lparr>shape = [1], elems = [1]\<rparr>" 3
          "[]" "\<lparr>rng = 0, trace = []\<rparr>"] v
    by auto
qed

subsection \<open>What a fatal error tells the caller\<close>

text \<open>
  C9, as the claim states it, fails: the error of a hidden-dimension mismatch is the same
  value at layer 3 with the datasets \<open>imdb\<close> and \<open>amazon\<close> as at layer 7 with \<open>boolq\<close> and
  \<open>rte\<close>, and its message holds neither the layer index nor a dataset name.
\<close>

theorem error_context_counterexample:
  "fst (apply_to_layer (const_collaborators \<lparr>shape = [1], elems = [0]\<rparr> \<lparr>shape = [1], elems = [1]\<rparr>)
          \<lparr>net = EigenFitterConfig 0, supervised = ''single'', out_dir = Some ''out''\<rparr> 3
          [(''imdb'', hs [1, 1, 2, 8]), (''amazon'', hs [1, 1, 2, 9])] [] \<lparr>rng = 0, trace = []\<rparr>)
     = Inl (ValueError ''All datasets must have the same hidden state size'')
   \<and> fst (apply_to_layer (const_collaborators \<lparr>shape = [1], elems = [0]\<rparr> \<lparr>shape = [1], elems = [1]\<rparr>)
          \<lparr>net = EigenFitterConfig 0, supervised = ''single'', out_dir = Some ''out''\<rparr> 7
          [(''boolq'', hs [1, 1, 2, 8]), (''rte'', hs [1, 1, 2, 9])] [] \<lparr>rng = 0, trace = []\<rparr>)
     = Inl (ValueError ''All datasets must have the same hidden state size'')
   \<and> \<not> sublist ''3'' ''All datasets must have the same hidden state size''
   \<and> \<not> sublist ''imdb'' ''All datasets must have the same hidden state size''
   \<and> \<not> sublist ''amazon'' ''All datasets must have the same hidden state size''"
proof -
  have a: "fst (apply_to_layer (const_collaborators \<lparr>shape = [1], elems = [0]\<rparr> \<lparr>shape = [1], elems = [1]\<rparr>)
          \<lparr>net = EigenFitterConfig 0, supervised = ''single'', out_dir = Some ''out''\<rparr> lyr
          [(n1, hs [1, 1, 2, 8]), (n2, hs [1, 1, 2, 9])] [] \<lparr>rng = 0, trace = []\<rparr>)
     = Inl (ValueError ''All datasets must have the same hidden state size'')" for lyr n1 n2
    by (simp add: apply_to_layer_def validate_def unpack4_def shape_neg_def hs_def)
  have b: "\<not> sublist ''3'' ''All datasets must have the same hidden state size''"
    by code_simp
  have c: "\<not> sublist ''imdb'' ''All datasets must have the same hidden state size''"
    by code_simp
  have d: "\<not> sublist ''amazon'' ''All datasets must have the same hidden state size''"
    by code_simp
  from a b c d show ?thesis by blast
qed

text \<open>
  C9, amended. Each of the four fatal errors reaches the caller as the result of
  \<open>apply_to_layer\<close>, with a fixed message that depends on the kind of the failure only
  (for an unknown configuration, on the name of its type): hidden-dimension mismatch,
  class-count mismatch, the CCS configuration with a number of datasets other than one,
  and a configuration that is neither CCS nor eigen. The messages name neither the layer
  nor a dataset.
\<close>

theorem fatal_errors_fixed_messages:
  "(\<forall>b \<in> set (map snd train_dict). length (shape (hiddens b)) = 4) \<and> train_dict \<noteq> [] \<longrightarrow>
   ((\<exists>b \<in> set (map snd (tl train_dict)).
        shape (hiddens b) ! 3 \<noteq> shape (hiddens (snd (hd train_dict))) ! 3) \<longrightarrow>
      fst (apply_to_layer X self lyr train_dict val_dict w0)
        = Inl (ValueError ''All datasets must have the same hidden state size''))
   \<and> ((\<forall>b \<in> set (map snd (tl train_dict)).
        shape (hiddens b) ! 3 = shape (hiddens (snd (hd train_dict))) ! 3)
      \<and> (\<exists>b \<in> set (map snd (tl train_dict)).
        shape (hiddens b) ! 2 \<noteq> shape (hiddens (snd (hd train_dict))) ! 2) \<longrightarrow>
      fst (apply_to_layer X self lyr train_dict val_dict w0)
        = Inl (ValueError ''All datasets must have the same number of classes''))
   \<and> ((\<forall>b \<in> set (map snd (tl train_dict)).
        shape (hiddens b) ! 3 = shape (hiddens (snd (hd train_dict))) ! 3
        \<and> shape (hiddens b) ! 2 = shape (hiddens (snd (hd train_dict))) ! 2)
      \<and> out_dir self \<noteq> None \<longrightarrow>
        (net self = CcsConfig s \<and> length train_dict \<noteq> 1 \<longrightarrow>
           fst (apply_to_layer X self lyr train_dict val_dict w0)
             = Inl (AssertionError ''CCS only supports single-task training''))
      \<and> (net self = OtherConfig name s \<longrightarrow>
           fst (apply_to_layer X self lyr train_dict val_dict w0)
             = Inl (ValueError (''Unknown reporter config type: <class '' @ [CHR 0x27] @ name
                  @ [CHR 0x27] @ ''>''))))"
proof (intro impI)
  assume a: "(\<forall>b \<in> set (map snd train_dict). length (shape (hiddens b)) = 4) \<and> train_dict \<noteq> []"
  let ?bs = "map snd train_dict"
  from a have ne: "?bs \<noteq> []" and four: "\<forall>b \<in> set ?bs. length (shape (hiddens b)) = 4"
    by auto
  have hd: "hd ?bs = snd (hd train_dict)" and tl: "tl ?bs = map snd (tl train_dict)"
    using a by (simp_all add: hd_map map_tl)
  note v = validate_4d [OF ne four, unfolded hd tl]
  let ?R = "fst (apply_to_layer X self lyr train_dict val_dict w0)"
  have 1: "?R = Inl (ValueError ''All datasets must have the same hidden state size'')"
    if "\<exists>b \<in> set (map snd (tl train_dict)).
        shape (hiddens b) ! 3 \<noteq> shape (hiddens (snd (hd train_dict))) ! 3"
    using that v by (simp add: apply_to_layer_validate_error)
  have 2: "?R = Inl (ValueError ''All datasets must have the same number of classes'')"
    if "(\<forall>b \<in> set (map snd (tl train_dict)).
        shape (hiddens b) ! 3 = shape (hiddens (snd (hd train_dict))) ! 3)
      \<and> (\<exists>b \<in> set (map snd (tl train_dict)).
        shape (hiddens b) ! 2 \<noteq> shape (hiddens (snd (hd train_dict))) ! 2)"
    using that v by (simp add: apply_to_layer_validate_error)
  have 3: "(net self = CcsConfig s \<and> length train_dict \<noteq> 1 \<longrightarrow>
           ?R = Inl (AssertionError ''CCS only supports single-task training''))
      \<and> (net self = OtherConfig name s \<longrightarrow>
           ?R = Inl (ValueError (''Unknown reporter config type: <class '' @ [CHR 0x27] @ name
                  @ [CHR 0x27] @ ''>'')))"
    if h: "(\<forall>b \<in> set (map snd (tl train_dict)).
        shape (hiddens b) ! 3 = shape (hiddens (snd (hd train_dict))) ! 3
        \<and> shape (hiddens b) ! 2 = shape (hiddens (snd (hd train_dict))) ! 2)
      \<and> out_dir self \<noteq> None"
  proof -
    from h obtain dir where dir: "out_dir self = Some dir" by auto
    from h v obtain f vv k d where ok: "validate ?bs = Inr (f, vv, k, d)" by simp
    show ?thesis
      by (auto simp: apply_to_layer_def ok dir fit_reporter_ccs_many fit_reporter_other)
  qed
  from 1 2 3 show "((\<exists>b \<in> set (map snd (tl train_dict)).
        shape (hiddens b) ! 3 \<noteq> shape (hiddens (snd (hd train_dict))) ! 3) \<longrightarrow>
      ?R = Inl (ValueError ''All datasets must have the same hidden state size''))
   \<and> ((\<forall>b \<in> set (map snd (tl train_dict)).
        shape (hiddens b) ! 3 = shape (hiddens (snd (hd train_dict))) ! 3)
      \<and> (\<exists>b \<in> set (map snd (tl train_dict)).
        shape (hiddens b) ! 2 \<noteq> shape (hiddens (snd (hd train_dict))) ! 2) \<longrightarrow>
      ?R = Inl (ValueError ''All datasets must have the same number of classes''))
   \<and> ((\<forall>b \<in> set (map snd (tl train_dict)).
        shape (hiddens b) ! 3 = shape (hiddens (snd (hd train_dict))) ! 3
        \<and> shape (hiddens b) ! 2 = shape (hiddens (snd (hd train_dict))) ! 2)
      \<and> out_dir self \<noteq> None \<longrightarrow>
        (net self = CcsConfig s \<and> length train_dict \<noteq> 1 \<longrightarrow>
           ?R = Inl (AssertionError ''CCS only supports single-task training''))
      \<and> (net self = OtherConfig name s \<longrightarrow>
           ?R = Inl (ValueError (''Unknown reporter config type: <class '' @ [CHR 0x27] @ name
                  @ [CHR 0x27] @ ''>''))))"
    by blast
qed


theorem fatal_errors_fixed_messages_witness:
  "fst (apply_to_layer (const_collaborators \<lparr>shape = [1], elems = [0]\<rparr> \<lparr>shape = [1], elems = [1]\<rparr>)
          \<lparr>net = EigenFitterConfig 0, supervised = ''single'', out_dir = Some ''out''\<rparr> 3
          [(''imdb'', hs [1, 1, 2, 8]), (''amazon'', hs [1, 1, 2, 9])] [] \<lparr>rng = 0, trace = []\<rparr>)
     = Inl (ValueError ''All datasets must have the same hidden state size'')
   \<and> fst (apply_to_layer (const_collaborators \<lparr>shape = [1], elems = [0]\<rparr> \<lparr>shape = [1], elems = [1]\<rparr>)
          \<lparr>net = EigenFitterConfig 0, supervised = ''single'', out_dir = Some ''out''\<rparr> 3
          [(''imdb'', hs [1, 1, 2, 8]), (''amazon'', hs [1, 1, 3, 8])] [] \<lparr>rng = 0, trace = []\<rparr>)
     = Inl (ValueError ''All datasets must have the same number of classes'')
   \<and> fst (apply_to_layer (const_collaborators \<lparr>shape = [1], elems = [0]\<rparr> \<lparr>shape = [1], elems = [1]\<rparr>)
          \<lparr>net = CcsConfig 0, supervised = ''single'', out_dir = Some ''out''\<rparr> 3
          [(''imdb'', hs [1, 1, 2, 8]), (''amazon'', hs [1, 3, 2, 8])] [] \<lparr>rng = 0, trace = []\<rparr>)
     = Inl (AssertionError ''CCS only supports single-task training'')
   \<and> fst (apply_to_layer (const_collaborators \<lparr>shape = [1], elems = [0]\<rparr> \<lparr>shape = [1], elems = [1]\<rparr>)
          \<lparr>net = OtherConfig ''Foo'' 0, supervised = ''single'', out_dir = Some ''out''\<rparr> 3
          [(''imdb'', hs [1, 1, 2, 8])] [] \<lparr>rng = 0, trace = []\<rparr>)
     = Inl (ValueError ''Unknown reporter config type: <class 'Foo'>'')"
proof -
  let ?X = "const_collaborators \<lparr>shape = [1], elems = [0]\<rparr> \<lparr>shape = [1], elems = [1]\<rparr>"
  let ?w0 = "\<lparr>rng = 0, trace = []\<rparr> :: unit world"
  let ?e = "\<lparr>net = EigenFitterConfig 0, supervised = ''single'', out_dir = Some ''out''\<rparr>"
  let ?c = "\<lparr>net = CcsConfig 0, supervised = ''single'', out_dir = Some ''out''\<rparr>"
  let ?o = "\<lparr>net = OtherConfig ''Foo'' 0, supervised = ''single'', out_dir = Some ''out''\<rparr>"
  let ?t1 = "[(''imdb'', hs [1, 1, 2, 8]), (''amazon'', hs [1, 1, 2, 9])]"
  let ?t2 = "[(''imdb'', hs [1, 1, 2, 8]), (''amazon'', hs [1, 1, 3, 8])]"
  let ?t3 = "[(''imdb'', hs [1, 1, 2, 8]), (''amazon'', hs [1, 3, 2, 8])]"
  let ?t4 = "[(''imdb'', hs [1, 1, 2, 8])]"
  have 1: "fst (apply_to_layer ?X ?e 3 ?t1 [] ?w0)
      = Inl (ValueError ''All datasets must have the same hidden state size'')"
    using fatal_errors_fixed_messages [of ?t1 ?X ?e 3 "[]" ?w0 0 "''Foo''"]
    by (simp add: hs_def)
  have 2: "fst (apply_to_layer ?X ?e 3 ?t2 [] ?w0)
      = Inl (ValueError ''All datasets must have the same number of classes'')"
    using fatal_errors_fixed_messages [of ?t2 ?X ?e 3 "[]" ?w0 0 "''Foo''"]
    by (simp add: hs_def)
  have 3: "fst (apply_to_layer ?X ?c 3 ?t3 [] ?w0)
      = Inl (AssertionError ''CCS only supports single-task training'')"
    using fatal_errors_fixed_messages [of ?t3 ?X ?c 3 "[]" ?w0 0 "''Foo''"]
    by (simp add: hs_def)
  have 4: "fst (apply_to_layer ?X ?o 3 ?t4 [] ?w0)
      = Inl (ValueError ''Unknown reporter config type: <class 'Foo'>'')"
    using fatal_errors_fixed_messages [of ?t4 ?X ?o 3 "[]" ?w0 0 "''Foo''"]
    by (simp add: hs_def)
  from 1 2 3 4 show ?thesis by blast
qed

subsection \<open>The rows of the result tables\<close>

lemma lr_loop_other_tables:
  "key \<noteq> ''lr_eval'' \<Longrightarrow> key \<noteq> ''train_lr_eval'' \<Longrightarrow>
   snd (snd (lr_loop X ds lyr mode val train ms (vc, tc, bufs))) key = bufs key"
  by (induction ms arbitrary: vc tc bufs) (auto simp: append_row_def Let_def)

lemma lr_loop_val_credences:
  "fst (lr_loop X ds lyr mode val train ms (vc, tc, bufs))
     = (if ms = [] then vc else lr_call X (snd (last ms)) (hiddens val))"
  by (induction ms arbitrary: vc tc bufs) (auto simp: Let_def)

lemma lr_loop_train_credences:
  "fst (snd (lr_loop X ds lyr mode val train ms (vc, tc, bufs)))
     = (if ms = [] then tc else lr_call X (snd (last ms)) (hiddens train))"
  by (induction ms arbitrary: vc tc bufs) (auto simp: Let_def)

lemma enumerate_Nil_iff: "enumerate n xs = [] \<longleftrightarrow> xs = []"
  by (cases xs) auto

lemma last_enumerate: "xs \<noteq> [] \<Longrightarrow> snd (last (enumerate n xs)) = last xs"
  by (induction xs arbitrary: n) (auto simp: enumerate_Nil_iff)

lemma mode_loop_eval_one:
  "\<exists>b'. mode_loop X ds lyr loss lrs val train (mode # modes) (vc, tc, bufs)
     = mode_loop X ds lyr loss lrs val train modes
         (if lrs = [] then vc else lr_call X (last lrs) (hiddens val),
          if lrs = [] then tc else lr_call X (last lrs) (hiddens train), b')
     \<and> b' ''eval'' = bufs ''eval'' @ [eval_row X ds lyr loss (labels val) vc mode]
     \<and> b' ''train_eval'' = bufs ''train_eval'' @ [eval_row X ds lyr loss (labels train) tc mode]"
proof -
  let ?b1 = "append_row bufs ''eval'' (eval_row X ds lyr loss (labels val) vc mode)"
  let ?b2 = "append_row ?b1 ''train_eval'' (eval_row X ds lyr loss (labels train) tc mode)"
  let ?b3 = "(case lm_preds val of
                     None \<Rightarrow> ?b2
                   | Some p \<Rightarrow> append_row ?b2 ''lm_eval''
                       \<lparr>dataset = ds, layer = lyr, ensembling = mode, inlp_iter = None,
                        metrics = evaluate_preds X (labels val) p mode, train_loss = None\<rparr>)"
  let ?b4 = "(case lm_preds train of
                     None \<Rightarrow> ?b3
                   | Some p \<Rightarrow> append_row ?b3 ''train_lm_eval''
                       \<lparr>dataset = ds, layer = lyr, ensembling = mode, inlp_iter = None,
                        metrics = evaluate_preds X (labels train) p mode, train_loss = None\<rparr>)"
  let ?L = "lr_loop X ds lyr mode val train (enumerate 0 lrs) (vc, tc, ?b4)"
  have e: "?b4 ''eval'' = bufs ''eval'' @ [eval_row X ds lyr loss (labels val) vc mode]"
    by (simp add: append_row_def split: option.splits)
  have t: "?b4 ''train_eval'' = bufs ''train_eval'' @ [eval_row X ds lyr loss (labels train) tc mode]"
    by (simp add: append_row_def split: option.splits)
  have L: "?L = (if lrs = [] then vc else lr_call X (last lrs) (hiddens val),
          if lrs = [] then tc else lr_call X (last lrs) (hiddens train), snd (snd ?L))"
    using lr_loop_val_credences [of X ds lyr mode val train "enumerate 0 lrs" vc tc ?b4]
      lr_loop_train_credences [of X ds lyr mode val train "enumerate 0 lrs" vc tc ?b4]
    by (cases ?L) (auto simp: enumerate_Nil_iff last_enumerate)
  have "mode_loop X ds lyr loss lrs val train (mode # modes) (vc, tc, bufs)
     = mode_loop X ds lyr loss lrs val train modes ?L"
    by (simp only: mode_loop.simps Let_def eval_row_def)
  with L have "mode_loop X ds lyr loss lrs val train (mode # modes) (vc, tc, bufs)
     = mode_loop X ds lyr loss lrs val train modes
         (if lrs = [] then vc else lr_call X (last lrs) (hiddens val),
          if lrs = [] then tc else lr_call X (last lrs) (hiddens train), snd (snd ?L))"
    by simp
  moreover have "snd (snd ?L) ''eval'' = ?b4 ''eval''"
    by (rule lr_loop_other_tables) simp_all
  moreover have "snd (snd ?L) ''train_eval'' = ?b4 ''train_eval''"
    by (rule lr_loop_other_tables) simp_all
  ultimately show ?thesis using e t by metis
qed


lemma eval_rows_of_pair:
  "eval_rows_of X lyr loss lrs reporter (ds, val) =
     [eval_row X ds lyr loss (labels val) (reporter_call X reporter (hiddens val)) ''none'',
      eval_row X ds lyr loss (labels val)
        (if lrs = [] then reporter_call X reporter (hiddens val)
         else lr_call X (last lrs) (hiddens val)) ''partial'',
      eval_row X ds lyr loss (labels val)
        (if lrs = [] then reporter_call X reporter (hiddens val)
         else lr_call X (last lrs) (hiddens val)) ''full'']"
  by (simp add: eval_rows_of_def Let_def)

lemma mode_loop_eval_table:
  "snd (snd (mode_loop X ds lyr loss lrs val train [m1, m2, m3] (vc, tc, bufs))) ''eval''
     = bufs ''eval'' @
       [eval_row X ds lyr loss (labels val) vc m1,
        eval_row X ds lyr loss (labels val)
          (if lrs = [] then vc else lr_call X (last lrs) (hiddens val)) m2,
        eval_row X ds lyr loss (labels val)
          (if lrs = [] then vc else lr_call X (last lrs) (hiddens val)) m3]"
proof -
  let ?vc = "if lrs = [] then vc else lr_call X (last lrs) (hiddens val)"
  let ?tc = "if lrs = [] then tc else lr_call X (last lrs) (hiddens train)"
  from mode_loop_eval_one [of X ds lyr loss lrs val train m1 "[m2, m3]" vc tc bufs]
  obtain b1 where 1: "mode_loop X ds lyr loss lrs val train [m1, m2, m3] (vc, tc, bufs)
      = mode_loop X ds lyr loss lrs val train [m2, m3] (?vc, ?tc, b1)"
    and e1: "b1 ''eval'' = bufs ''eval'' @ [eval_row X ds lyr loss (labels val) vc m1]"
    by blast
  from mode_loop_eval_one [of X ds lyr loss lrs val train m2 "[m3]" ?vc ?tc b1]
  obtain b2 where 2: "mode_loop X ds lyr loss lrs val train [m2, m3] (?vc, ?tc, b1)
      = mode_loop X ds lyr loss lrs val train [m3] (?vc, ?tc, b2)"
    and e2: "b2 ''eval'' = b1 ''eval'' @ [eval_row X ds lyr loss (labels val) ?vc m2]"
    by (auto split: if_splits)
  from mode_loop_eval_one [of X ds lyr loss lrs val train m3 "[]" ?vc ?tc b2]
  obtain b3 where 3: "mode_loop X ds lyr loss lrs val train [m3] (?vc, ?tc, b2)
      = mode_loop X ds lyr loss lrs val train [] (?vc, ?tc, b3)"
    and e3: "b3 ''eval'' = b2 ''eval'' @ [eval_row X ds lyr loss (labels val) ?vc m3]"
    by (auto split: if_splits)
  from 1 2 3 have "snd (snd (mode_loop X ds lyr loss lrs val train [m1, m2, m3] (vc, tc, bufs)))
      = b3" by simp
  with e1 e2 e3 show ?thesis by simp
qed

lemma ds_loop_eval_table:
  "ds_loop X lyr loss lrs reporter td vd bufs = (Inr t, es) \<Longrightarrow>
   t ''eval'' = bufs ''eval'' @ concat (map (eval_rows_of X lyr loss lrs reporter) vd)"
proof (induction vd arbitrary: bufs es)
  case Nil
  then show ?case by simp
next
  case (Cons p vd)
  obtain ds val where p: "p = (ds, val)" by (cases p)
  from Cons.prems p obtain train where tr: "map_of td ds = Some train"
    by (auto split: option.splits)
  let ?b = "snd (snd (mode_loop X ds lyr loss lrs val train [''none'', ''partial'', ''full'']
              (reporter_call X reporter (hiddens val), reporter_call X reporter (hiddens train), bufs)))"
  from Cons.prems p tr obtain es' where rec: "ds_loop X lyr loss lrs reporter td vd ?b = (Inr t, es')"
    by (auto simp: Let_def simp del: mode_loop.simps split: prod.splits)
  from Cons.IH [OF rec] have "t ''eval'' = ?b ''eval'' @ concat (map (eval_rows_of X lyr loss lrs reporter) vd)" .
  then show ?case
    by (simp add: p mode_loop_eval_table eval_rows_of_pair del: mode_loop.simps)
qed

lemma apply_to_layer_success:
  assumes "apply_to_layer X self lyr td vd w0 = (Inr t, w)"
  obtains f v k d dir reporter loss w3 lrs w5 es where
    "validate (map snd td) = Inr (f, v, k, d)"
    "out_dir self = Some dir"
    "fit_reporter X (net self) td f v k d
       (emit [CreateModelsDir dir] (make_reproducible (seed (net self) + lyr) w0))
       = (Inr (reporter, loss), w3)"
    "fit_supervised X self lyr td (emit [SaveReporter lyr reporter] w3) = (lrs, w5)"
    "ds_loop X lyr loss lrs reporter td vd (\<lambda>key. []) = (Inr t, es)"
    "w = emit es w5"
  using assms
  by (auto simp: apply_to_layer_def Let_def split: sum.splits option.splits prod.splits)

lemma apply_to_layer_eval_table:
  assumes "apply_to_layer X self lyr td vd w0 = (Inr t, w)"
  shows "\<exists>reporter loss lrs. t ''eval'' = concat (map (eval_rows_of X lyr loss lrs reporter) vd)"
proof -
  from assms obtain reporter loss lrs es where
    "ds_loop X lyr loss lrs reporter td vd (\<lambda>key. []) = (Inr t, es)"
    by (rule apply_to_layer_success)
  from ds_loop_eval_table [OF this] show ?thesis by auto
qed


text \<open>
  C5. The table \<open>eval\<close> of a run that returns holds three rows for every validation
  dataset, one for each of \<open>none\<close>, \<open>partial\<close> and \<open>full\<close> (lemma
  \<open>apply_to_layer_eval_table\<close>), but only the first of them is computed from the
  reporter's credences when a supervised model was trained: the loop over the supervised
  models assigns \<open>val_credences\<close> and \<open>train_credences\<close>, and the passes for \<open>partial\<close>
  and \<open>full\<close> read what it left. With the default \<open>supervised = single\<close>, one dataset,
  a reporter that answers (1/4, 3/4) and a supervised model that answers (9/10, 1/10),
  the rows of \<open>eval\<close> and \<open>train_eval\<close> for \<open>partial\<close> and \<open>full\<close> are computed from
  (9/10, 1/10).
\<close>

theorem eval_rows_after_supervised_loop:
  "\<exists>t. fst (apply_to_layer
        (const_collaborators \<lparr>shape = [1, 1, 2], elems = [1 / 4, 3 / 4]\<rparr>
                             \<lparr>shape = [1, 1, 2], elems = [9 / 10, 1 / 10]\<rparr>)
        \<lparr>net = EigenFitterConfig 0, supervised = ''single'', out_dir = Some ''out''\<rparr> 3
        [(''imdb'', hs [1, 1, 2, 8])] [(''imdb'', hs [1, 1, 2, 8])] \<lparr>rng = 0, trace = []\<rparr>)
      = Inr t
    \<and> map (\<lambda>r. (dataset r, ensembling r, metrics r)) (t ''eval'')
      = [(''imdb'', ''none'', \<lparr>shape = [1, 1, 2], elems = [1 / 4, 3 / 4]\<rparr>),
         (''imdb'', ''partial'', \<lparr>shape = [1, 1, 2], elems = [9 / 10, 1 / 10]\<rparr>),
         (''imdb'', ''full'', \<lparr>shape = [1, 1, 2], elems = [9 / 10, 1 / 10]\<rparr>)]
    \<and> map (\<lambda>r. (dataset r, ensembling r, metrics r)) (t ''train_eval'')
      = [(''imdb'', ''none'', \<lparr>shape = [1, 1, 2], elems = [1 / 4, 3 / 4]\<rparr>),
         (''imdb'', ''partial'', \<lparr>shape = [1, 1, 2], elems = [9 / 10, 1 / 10]\<rparr>),
         (''imdb'', ''full'', \<lparr>shape = [1, 1, 2], elems = [9 / 10, 1 / 10]\<rparr>)]"
  by (simp add: apply_to_layer_def validate_def unpack4_def shape_neg_def hs_def
        make_reproducible_def emit_def fit_reporter_def fit_supervised_def
        const_collaborators_def append_row_def Let_def)

subsection \<open>Calibration happens once, after fitting\<close>

lemma stream_updates_events:
  "stream_updates X k td acc = (res, es) \<Longrightarrow> \<forall>e \<in> set es. \<exists>ds. e = EigenUpdate ds"
proof (induction td arbitrary: acc res es)
  case Nil
  then show ?case by (cases acc) auto
next
  case (Cons p td)
  obtain ds b where p: "p = (ds, b)" by (cases p)
  obtain fitter hl ll where acc: "acc = (fitter, hl, ll)" by (cases acc)
  show ?case
  proof (cases "unpack4 (shape (hiddens b))")
    case (Inl e)
    with Cons.prems p acc show ?thesis by simp
  next
    case (Inr q)
    obtain n v k' d' where q: "q = (n, v, k', d')" by (cases q)
    let ?acc = "(fitter_update X fitter (hiddens b), hl @ [rearrange_rows (hiddens b)],
                 ll @ [flatten (to_one_hot X (repeat_labels (labels b) v) k)])"
    obtain res' es' where r: "stream_updates X k td ?acc = (res', es')"
      by (cases "stream_updates X k td ?acc")
    from Cons.prems p acc Inr q r have "es = EigenUpdate ds # es'" by simp
    with Cons.IH [OF r] show ?thesis by auto
  qed
qed

lemma fit_reporter_success_trace:
  assumes "fit_reporter X cfg td f v k d w = (Inr (r, loss), w')"
  shows "\<exists>fits fitted lbls hds. trace w' = trace w @ fits @ [PlattScale r] \<and> fits \<noteq> []
      \<and> (\<forall>e \<in> set fits. fit_event e) \<and> r = platt_scale X fitted lbls hds"
proof (cases cfg)
  case (CcsConfig s)
  with assms obtain fitted l g where "length td = 1"
    "ccs_fit X (rng w) cfg d v (hiddens f) = ((fitted, l), g)"
    "r = platt_scale X fitted (repeat_variants (to_one_hot X (labels f) k) v) (hiddens f)"
    "w' = emit [CcsFit, PlattScale r] (w\<lparr>rng := g\<rparr>)"
    by (auto simp: fit_reporter_def Let_def split: if_splits prod.splits)
  then have "trace w' = trace w @ [CcsFit] @ [PlattScale r] \<and> [CcsFit] \<noteq> []
      \<and> (\<forall>e \<in> set [CcsFit]. fit_event e)
      \<and> r = platt_scale X fitted (repeat_variants (to_one_hot X (labels f) k) v) (hiddens f)"
    by (simp add: emit_def fit_event_def)
  then show ?thesis by blast
next
  case (EigenFitterConfig s)
  with assms obtain fitter hl ll es where
    su: "stream_updates X k td (new_fitter X cfg d k v, [], []) = (Inr (fitter, hl, ll), es)"
    and r: "r = platt_scale X (fit_streaming X fitter) (cat ll) (cat hl)"
    and w': "w' = emit (es @ [FitStreaming, PlattScale r]) w"
    by (auto simp: fit_reporter_def Let_def split: prod.splits sum.splits)
  from stream_updates_events [OF su] have "\<forall>e \<in> set (es @ [FitStreaming]). fit_event e"
    by (auto simp: fit_event_def)
  with r w' have "trace w' = trace w @ (es @ [FitStreaming]) @ [PlattScale r]
      \<and> es @ [FitStreaming] \<noteq> []
      \<and> (\<forall>e \<in> set (es @ [FitStreaming]). fit_event e)
      \<and> r = platt_scale X (fit_streaming X fitter) (cat ll) (cat hl)"
    by (simp add: emit_def)
  then show ?thesis by blast
next
  case (OtherConfig name s)
  with assms show ?thesis by (simp add: fit_reporter_def)
qed

lemma fit_reporter_error_trace:
  assumes "fit_reporter X cfg td f v k d w = (Inl e, w')"
  shows "\<exists>es. trace w' = trace w @ es \<and> (\<forall>e \<in> set es. \<exists>ds. e = EigenUpdate ds)"
proof (cases cfg)
  case (CcsConfig s)
  with assms have "w' = w"
    by (auto simp: fit_reporter_def Let_def split: if_splits prod.splits)
  then show ?thesis by simp
next
  case (EigenFitterConfig s)
  with assms obtain es where
    su: "stream_updates X k td (new_fitter X cfg d k v, [], []) = (Inl e, es)"
    and w': "w' = emit es w"
    by (auto simp: fit_reporter_def Let_def split: prod.splits sum.splits)
  from stream_updates_events [OF su] w' show ?thesis by (auto simp: emit_def)
next
  case (OtherConfig name s)
  with assms show ?thesis by (simp add: fit_reporter_def)
qed

lemma fit_supervised_events:
  "fit_supervised X self lyr td w = (lrs, w') \<Longrightarrow>
   \<exists>sup. trace w' = trace w @ sup
     \<and> (\<forall>e \<in> set sup. e = TrainSupervised (supervised self) \<or> e = SaveLrModels lyr)"
  by (auto simp: fit_supervised_def emit_def split: if_splits prod.splits)

lemma ds_loop_events:
  "ds_loop X lyr loss lrs reporter td vd bufs = (res, es) \<Longrightarrow>
   \<forall>e \<in> set es. \<exists>ds sp. e = ReporterCall reporter ds sp"
proof (induction vd arbitrary: bufs res es)
  case Nil
  then show ?case by simp
next
  case (Cons p vd)
  obtain ds val where p: "p = (ds, val)" by (cases p)
  show ?case
  proof (cases "map_of td ds")
    case None
    with Cons.prems p show ?thesis by simp
  next
    case (Some train)
    let ?b = "snd (snd (mode_loop X ds lyr loss lrs val train [''none'', ''partial'', ''full'']
              (reporter_call X reporter (hiddens val), reporter_call X reporter (hiddens train), bufs)))"
    obtain res' es' where r: "ds_loop X lyr loss lrs reporter td vd ?b = (res', es')"
      by (cases "ds_loop X lyr loss lrs reporter td vd ?b")
    from Cons.prems p Some r have "es = ReporterCall reporter ds ''val''
        # ReporterCall reporter ds ''train'' # es'"
      by (simp add: Let_def del: mode_loop.simps)
    with Cons.IH [OF r] show ?thesis by auto
  qed
qed


lemma calibrated_runI:
  assumes "fits \<noteq> []" "\<forall>e \<in> set fits. fit_event e"
    and "\<forall>e \<in> set post. e = TrainSupervised (supervised self) \<or> e = SaveLrModels lyr
             \<or> (\<exists>ds sp. e = ReporterCall r ds sp)"
    and "r = platt_scale X fitted lbls hds"
  shows "calibrated_run X self lyr
     ([MakeReproducible (seed (net self) + lyr), CreateModelsDir dir] @ fits
               @ [PlattScale r, SaveReporter lyr r] @ post)"
  unfolding calibrated_run_def
  apply (rule exI [where x = dir])
  apply (rule exI [where x = fits])
  apply (rule exI [where x = r])
  apply (rule exI [where x = post])
  apply (rule exI [where x = fitted])
  apply (rule exI [where x = lbls])
  apply (rule exI [where x = hds])
  using assms apply simp
  done

lemma trace_emit: "trace (emit es w) = trace w @ es"
  by (simp add: emit_def)

lemma run_shapeI:
  "trace w = trace w0 @ es \<Longrightarrow>
   uncalibrated_run es \<and> (\<exists>e. res = Inl e) \<or> calibrated_run X self lyr es \<Longrightarrow>
   \<exists>es. trace w = trace w0 @ es
     \<and> (uncalibrated_run es \<and> (\<exists>e. res = Inl e) \<or> calibrated_run X self lyr es)"
  by (rule exI [where x = es]) simp

lemma apply_to_layer_run_shape:
  assumes run: "apply_to_layer X self lyr td vd w0 = (res, w)"
  shows "\<exists>es. trace w = trace w0 @ es
     \<and> (uncalibrated_run es \<and> (\<exists>e. res = Inl e) \<or> calibrated_run X self lyr es)"
proof -
  let ?s = "seed (net self) + lyr"
  let ?w1 = "make_reproducible ?s w0"
  have t1: "trace ?w1 = trace w0 @ [MakeReproducible ?s]"
    by (simp add: make_reproducible_def emit_def)
  have u1: "uncalibrated_run [MakeReproducible ?s]"
    by (simp add: uncalibrated_run_def)
  show ?thesis
  proof (cases "validate (map snd td)")
    case (Inl e)
    with run have rw: "res = Inl e" "w = ?w1" by (simp_all add: apply_to_layer_def)
    show ?thesis
      by (rule run_shapeI [where es = "[MakeReproducible ?s]"]) (simp_all add: rw t1 u1)
  next
    case (Inr q)
    obtain f v k d where q: "q = (f, v, k, d)" by (cases q) auto
    show ?thesis
    proof (cases "out_dir self")
      case None
      with run Inr q have rw: "res = Inl (TypeError ''Expected Path, got NoneType'')" "w = ?w1"
        by (simp_all add: apply_to_layer_def)
      show ?thesis
        by (rule run_shapeI [where es = "[MakeReproducible ?s]"]) (simp_all add: rw t1 u1)
    next
      case (Some dir)
      let ?w2 = "emit [CreateModelsDir dir] ?w1"
      have t2: "trace ?w2 = trace w0 @ [MakeReproducible ?s, CreateModelsDir dir]"
        by (simp add: t1 emit_def)
      obtain fr w3 where fit: "fit_reporter X (net self) td f v k d ?w2 = (fr, w3)"
        by (cases "fit_reporter X (net self) td f v k d ?w2")
      show ?thesis
      proof (cases fr)
        case (Inl e)
        with run Inr q Some fit have rw: "res = Inl e" "w = w3"
          by (simp_all add: apply_to_layer_def)
        from fit_reporter_error_trace [OF fit [unfolded Inl]]
        obtain es where es: "trace w3 = trace ?w2 @ es" "\<forall>e \<in> set es. \<exists>ds. e = EigenUpdate ds"
          by blast
        have u: "uncalibrated_run ([MakeReproducible ?s, CreateModelsDir dir] @ es)"
          using es(2) by (auto simp: uncalibrated_run_def)
        show ?thesis
          by (rule run_shapeI [where es = "[MakeReproducible ?s, CreateModelsDir dir] @ es"])
             (use rw es(1) t2 u in auto)
      next
        case (Inr rl)
        obtain r loss where rl: "rl = (r, loss)" by (cases rl)
        from fit_reporter_success_trace [OF fit [unfolded Inr rl]]
        obtain fits fitted lbls hds where
          t3: "trace w3 = trace ?w2 @ fits @ [PlattScale r]" and ne: "fits \<noteq> []"
          and fe: "\<forall>e \<in> set fits. fit_event e" and r: "r = platt_scale X fitted lbls hds"
          by blast
        let ?w4 = "emit [SaveReporter lyr r] w3"
        obtain lrs w5 where sup: "fit_supervised X self lyr td ?w4 = (lrs, w5)"
          by (cases "fit_supervised X self lyr td ?w4")
        from fit_supervised_events [OF sup]
        obtain sp where t5: "trace w5 = trace ?w4 @ sp"
          and se: "\<forall>e \<in> set sp. e = TrainSupervised (supervised self) \<or> e = SaveLrModels lyr"
          by blast
        obtain res' es where dl: "ds_loop X lyr loss lrs r td vd (\<lambda>key. []) = (res', es)"
          by (cases "ds_loop X lyr loss lrs r td vd (\<lambda>key. [])")
        from run \<open>validate (map snd td) = Inr q\<close> q Some fit Inr rl sup dl
        have w: "w = emit es w5" by (simp add: apply_to_layer_def)
        from ds_loop_events [OF dl]
        have ce: "\<forall>e \<in> set es. \<exists>ds sp. e = ReporterCall r ds sp" .
        let ?es = "[MakeReproducible ?s, CreateModelsDir dir] @ fits
               @ [PlattScale r, SaveReporter lyr r] @ (sp @ es)"
        have tr: "trace w = trace w0 @ ?es"
          by (simp add: w t5 t3 t1 trace_emit)
        have cal: "calibrated_run X self lyr ?es"
        proof (rule calibrated_runI [OF ne fe _ r])
          show "\<forall>e \<in> set (sp @ es). e = TrainSupervised (supervised self) \<or> e = SaveLrModels lyr
             \<or> (\<exists>ds sp. e = ReporterCall r ds sp)"
            using se ce by auto
        qed
        show ?thesis
          by (rule run_shapeI [where es = ?es]) (use tr cal in blast)+
      qed
    qed
  qed
qed


text \<open>
  C6. In every run of \<open>apply_to_layer\<close> that gets as far as a reporter, \<open>platt_scale\<close> is
  called exactly once, after all fitting steps (the one \<open>fit\<close> of the CCS path, or the
  \<open>update\<close>s and \<open>fit_streaming\<close> of the eigen path); the reporter it returns is the one
  that is saved, and everything the run does to a reporter afterwards is a call of that
  same reporter. A run that ends earlier ends in an error and never calibrates.
  Calibration itself changes scale and bias of the stored affine transform only: the
  learned direction and offset of the calibrated reporter are those of the fitted one.
\<close>

theorem calibrated_once_then_read_only:
  "(apply_to_layer X self lyr td vd w0 = (res, w) \<longrightarrow>
      (\<exists>es. trace w = trace w0 @ es
         \<and> (uncalibrated_run es \<and> (\<exists>e. res = Inl e) \<or> calibrated_run X self lyr es)))
   \<and> direction (platt_scale_spec opt r0 l h) = direction r0
   \<and> offset (platt_scale_spec opt r0 l h) = offset r0
   \<and> (\<exists>s b. platt_scale_spec opt r0 l h = r0\<lparr>cal_scale := s, cal_bias := b\<rparr>)"
proof (intro conjI impI)
  assume "apply_to_layer X self lyr td vd w0 = (res, w)"
  then show "\<exists>es. trace w = trace w0 @ es
         \<and> (uncalibrated_run es \<and> (\<exists>e. res = Inl e) \<or> calibrated_run X self lyr es)"
    by (rule apply_to_layer_run_shape)
next
  show "direction (platt_scale_spec opt r0 l h) = direction r0"
    by (simp add: platt_scale_spec_def split: prod.splits)
next
  show "offset (platt_scale_spec opt r0 l h) = offset r0"
    by (simp add: platt_scale_spec_def split: prod.splits)
next
  show "\<exists>s b. platt_scale_spec opt r0 l h = r0\<lparr>cal_scale := s, cal_bias := b\<rparr>"
    by (cases "opt (raw_scores r0 h) (elems l)") (auto simp: platt_scale_spec_def)
qed

theorem calibrated_once_then_read_only_witness:
  "trace (snd (apply_to_layer
        (const_collaborators \<lparr>shape = [1], elems = [0]\<rparr> \<lparr>shape = [1], elems = [1]\<rparr>)
        \<lparr>net = CcsConfig 5, supervised = ''single'', out_dir = Some ''out''\<rparr> 3
        [(''imdb'', hs [1, 1, 2, 8])] [(''imdb'', hs [1, 1, 2, 8])] \<lparr>rng = 11, trace = []\<rparr>))
     = [MakeReproducible 8, CreateModelsDir ''out'', CcsFit, PlattScale (), SaveReporter 3 (),
        TrainSupervised ''single'', SaveLrModels 3,
        ReporterCall () ''imdb'' ''val'', ReporterCall () ''imdb'' ''train'']
   \<and> calibrated_run
        (const_collaborators \<lparr>shape = [1], elems = [0]\<rparr> \<lparr>shape = [1], elems = [1]\<rparr>)
        \<lparr>net = CcsConfig 5, supervised = ''single'', out_dir = Some ''out''\<rparr> 3
        [MakeReproducible 8, CreateModelsDir ''out'', CcsFit, PlattScale (), SaveReporter 3 (),
         TrainSupervised ''single'', SaveLrModels 3,
         ReporterCall () ''imdb'' ''val'', ReporterCall () ''imdb'' ''train'']
   \<and> direction (platt_scale_spec (\<lambda>scores ls. (2, 3))
          \<lparr>direction = [1, 2], offset = 0, cal_scale = 1, cal_bias = 0\<rparr>
          \<lparr>shape = [1], elems = [1]\<rparr> \<lparr>shape = [1, 2], elems = [5, 6]\<rparr>) = [1, 2]
   \<and> platt_scale_spec (\<lambda>scores ls. (2, 3))
          \<lparr>direction = [1, 2], offset = 0, cal_scale = 1, cal_bias = 0\<rparr>
          \<lparr>shape = [1], elems = [1]\<rparr> \<lparr>shape = [1, 2], elems = [5, 6]\<rparr>
       = \<lparr>direction = [1, 2], offset = 0, cal_scale = 2, cal_bias = 3\<rparr>"
proof -
  let ?X = "const_collaborators \<lparr>shape = [1], elems = [0]\<rparr> \<lparr>shape = [1], elems = [1]\<rparr>"
  let ?self = "\<lparr>net = CcsConfig 5, supervised = ''single'', out_dir = Some ''out''\<rparr>"
  let ?td = "[(''imdb'', hs [1, 1, 2, 8])]"
  let ?w0 = "\<lparr>rng = 11, trace = []\<rparr> :: unit world"
  let ?es = "[MakeReproducible 8, CreateModelsDir ''out'', CcsFit, PlattScale (), SaveReporter 3 (),
        TrainSupervised ''single'', SaveLrModels 3,
        ReporterCall () ''imdb'' ''val'', ReporterCall () ''imdb'' ''train'']"
  let ?r0 = "\<lparr>direction = [1, 2], offset = 0, cal_scale = 1, cal_bias = 0\<rparr>"
  let ?l = "\<lparr>shape = [1], elems = [1]\<rparr>"
  let ?h = "\<lparr>shape = [1, 2], elems = [5, 6]\<rparr>"
  let ?opt = "\<lambda>(scores :: vec) (ls :: vec). (2 :: real, 3 :: real)"
  obtain res w where run: "apply_to_layer ?X ?self 3 ?td ?td ?w0 = (res, w)"
    by (cases "apply_to_layer ?X ?self 3 ?td ?td ?w0")
  have ok: "\<exists>t. res = Inr t" and tr: "trace w = ?es"
    using run
    by (auto simp: apply_to_layer_def validate_def unpack4_def shape_neg_def hs_def
        make_reproducible_def emit_def fit_reporter_def fit_supervised_def
        const_collaborators_def append_row_def Let_def)
  note th = calibrated_once_then_read_only
    [where X = ?X and self = ?self and lyr = 3 and td = ?td and vd = ?td and ?w0.0 = ?w0
       and res = res and w = w and opt = ?opt and ?r0.0 = ?r0 and l = ?l and h = ?h]
  from th run obtain es where es: "trace w = trace ?w0 @ es"
    "uncalibrated_run es \<and> (\<exists>e. res = Inl e) \<or> calibrated_run ?X ?self 3 es"
    by blast
  from es(1) tr have "es = ?es" by simp
  with es(2) ok have cal: "calibrated_run ?X ?self 3 ?es" by auto
  from th have d: "direction (platt_scale_spec ?opt ?r0 ?l ?h) = [1, 2]" by simp
  from th obtain s b where sb: "platt_scale_spec ?opt ?r0 ?l ?h = ?r0\<lparr>cal_scale := s, cal_bias := b\<rparr>"
    by blast
  have "platt_scale_spec ?opt ?r0 ?l ?h = \<lparr>direction = [1, 2], offset = 0, cal_scale = 2, cal_bias = 3\<rparr>"
    by (simp add: platt_scale_spec_def)
  with run tr cal d show ?thesis by simp
qed

subsection \<open>One variant: the three ensembling modes coincide\<close>











subsection \<open>Streaming statistics do not depend on the batches\<close>

lemma comoment_expand:
  "sum_list (map (\<lambda>x. (f x - c) * (g x - e)) xs)
     = sum_list (map (\<lambda>x. f x * g x) xs) - c * sum_list (map g xs) - e * sum_list (map f xs)
       + real (length xs) * c * e"
  by (induction xs) (simp_all add: algebra_simps)

lemma comoment_entry:
  assumes "xs \<noteq> []"
  shows "sum_list (map (\<lambda>x. (f x - sum_list (map f xs) / real (length xs))
                           * (g x - sum_list (map g xs) / real (length xs))) xs)
     = sum_list (map (\<lambda>x. f x * g x) xs)
       - sum_list (map f xs) * sum_list (map g xs) / real (length xs)"
proof -
  have n: "real (length xs) \<noteq> 0" using assms by simp
  show ?thesis
    unfolding comoment_expand using n by (simp add: field_simps)
qed

lemma chan_scalar:
  fixes A B P A' B' P' n m :: real
  assumes "0 < n" "0 < m"
  shows "(P - A * B / n) + (P' - A' * B' / m)
       + (A' / m - A / n) * (B' / m - B / n) * (n * m / (n + m))
     = (P + P') - (A + A') * (B + B') / (n + m)"
proof -
  have nz: "n \<noteq> 0" "m \<noteq> 0" "n + m \<noteq> 0" using assms by auto
  have "(A' / m - A / n) * (B' / m - B / n) * (n * m / (n + m))
      = (A' * n - A * m) * (B' * n - B * m) / (n * m * (n + m))"
    using nz by (simp add: divide_simps; simp add: algebra_simps)
  moreover have "A * B / n + A' * B' / m - (A' * n - A * m) * (B' * n - B * m) / (n * m * (n + m))
      = (A + A') * (B + B') / (n + m)"
    using nz by (simp add: divide_simps; simp add: algebra_simps)
  ultimately show ?thesis by simp
qed

lemma mean_scalar:
  fixes A A' n m :: real
  assumes "0 < n" "0 < m"
  shows "A / n + (A' / m - A / n) * m / (n + m) = (A + A') / (n + m)"
proof -
  have nz: "n \<noteq> 0" "m \<noteq> 0" "n + m \<noteq> 0" using assms by auto
  then show ?thesis by (simp add: divide_simps; simp add: algebra_simps)
qed


lemma mean_dim0_nth:
  "i < p \<Longrightarrow> mean_dim0 p xs ! i = sum_list (map (\<lambda>x. x ! i) xs) / real (length xs)"
  by (simp add: mean_dim0_def mean_list_def column_def)

lemma batch_comoment_nth:
  assumes "i < p" "j < p" "xs \<noteq> []"
  shows "batch_comoment p xs ! i ! j
     = sum_list (map (\<lambda>x. x ! i * x ! j) xs)
       - sum_list (map (\<lambda>x. x ! i) xs) * sum_list (map (\<lambda>x. x ! j) xs) / real (length xs)"
  using assms comoment_entry [OF assms(3), of "\<lambda>x. x ! i" "\<lambda>x. x ! j"]
  by (simp add: batch_comoment_def Let_def mean_dim0_nth)

lemma absorb_mean:
  assumes "xs \<noteq> []" "ys \<noteq> []"
  shows "running_mean (absorb p (stats_of p xs) ys) = mean_dim0 p (xs @ ys)"
proof (rule nth_equalityI)
  show "length (running_mean (absorb p (stats_of p xs) ys)) = length (mean_dim0 p (xs @ ys))"
    by (simp add: absorb_def stats_of_def Let_def length_mean_dim0)
next
  fix i assume "i < length (running_mean (absorb p (stats_of p xs) ys))"
  then have i: "i < p"
    by (simp add: absorb_def stats_of_def Let_def length_mean_dim0)
  have n: "0 < real (length xs)" "0 < real (length ys)" using assms by auto
  show "running_mean (absorb p (stats_of p xs) ys) ! i = mean_dim0 p (xs @ ys) ! i"
    using i mean_scalar [OF n, of "sum_list (map (\<lambda>x. x ! i) xs)" "sum_list (map (\<lambda>x. x ! i) ys)"]
    by (simp add: absorb_def stats_of_def Let_def length_mean_dim0 mean_dim0_nth)
qed

lemma absorb_comoment:
  assumes "xs \<noteq> []" "ys \<noteq> []"
  shows "comoment (absorb p (stats_of p xs) ys) = batch_comoment p (xs @ ys)"
proof -
  have n: "0 < real (length xs)" "0 < real (length ys)" using assms by auto
  have e: "comoment (stats_of p xs) ! i ! j + batch_comoment p ys ! i ! j
        + map2 (-) (mean_dim0 p ys) (running_mean (stats_of p xs)) ! i
          * map2 (-) (mean_dim0 p ys) (running_mean (stats_of p xs)) ! j
          * (real (n_seen (stats_of p xs)) * real (length ys)
             / real (n_seen (stats_of p xs) + length ys))
      = batch_comoment p (xs @ ys) ! i ! j" if "i < p" "j < p" for i j
    using that assms
      chan_scalar [OF n, of "sum_list (map (\<lambda>x. x ! i * x ! j) xs)"
        "sum_list (map (\<lambda>x. x ! i) xs)" "sum_list (map (\<lambda>x. x ! j) xs)"
        "sum_list (map (\<lambda>x. x ! i * x ! j) ys)"
        "sum_list (map (\<lambda>x. x ! i) ys)" "sum_list (map (\<lambda>x. x ! j) ys)"]
    by (simp add: stats_of_def batch_comoment_nth mean_dim0_nth length_mean_dim0)
  have "comoment (absorb p (stats_of p xs) ys)
      = map (\<lambda>i. map (\<lambda>j. batch_comoment p (xs @ ys) ! i ! j) [0..<p]) [0..<p]"
    unfolding absorb_def Let_def stats.select_convs
    by (intro map_cong refl e) simp_all
  also have "\<dots> = batch_comoment p (xs @ ys)"
    by (simp add: batch_comoment_def Let_def)
  finally show ?thesis .
qed

lemma absorb_stats_of:
  assumes "xs \<noteq> []" "ys \<noteq> []"
  shows "absorb p (stats_of p xs) ys = stats_of p (xs @ ys)"
proof -
  have "n_seen (absorb p (stats_of p xs) ys) = length (xs @ ys)"
    by (simp add: absorb_def stats_of_def Let_def)
  with absorb_mean [OF assms, of p] absorb_comoment [OF assms, of p]
  show ?thesis by (simp add: stats_of_def absorb_def Let_def)
qed


lemma absorb_init:
  assumes "ys \<noteq> []"
  shows "absorb p (init_stats p) ys = stats_of p ys"
proof -
  have n: "real (length ys) \<noteq> 0" using assms by simp
  have m: "running_mean (absorb p (init_stats p) ys) = mean_dim0 p ys"
    by (rule nth_equalityI)
       (use n in \<open>simp_all add: absorb_def init_stats_def Let_def length_mean_dim0\<close>)
  have "comoment (absorb p (init_stats p) ys)
      = map (\<lambda>i. map (\<lambda>j. batch_comoment p ys ! i ! j) [0..<p]) [0..<p]"
    unfolding absorb_def Let_def stats.select_convs
    by (intro map_cong refl) (simp_all add: init_stats_def)
  also have "\<dots> = batch_comoment p ys"
    by (simp add: batch_comoment_def Let_def)
  finally have c: "comoment (absorb p (init_stats p) ys) = batch_comoment p ys" .
  have "n_seen (absorb p (init_stats p) ys) = length ys"
    by (simp add: absorb_def init_stats_def Let_def)
  with m c show ?thesis by (simp add: stats_of_def absorb_def Let_def)
qed

lemma foldl_absorb_stats_of:
  "xs \<noteq> [] \<Longrightarrow> \<forall>b \<in> set bs. b \<noteq> [] \<Longrightarrow>
   foldl (absorb p) (stats_of p xs) bs = stats_of p (xs @ concat bs)"
  by (induction bs arbitrary: xs) (simp_all add: absorb_stats_of)

lemma foldl_absorb_init:
  assumes "bs \<noteq> []" "\<forall>b \<in> set bs. b \<noteq> []"
  shows "foldl (absorb p) (init_stats p) bs = stats_of p (concat bs)"
proof (cases bs)
  case Nil
  with assms show ?thesis by simp
next
  case (Cons b bs')
  with assms have "b \<noteq> []" "\<forall>b \<in> set bs'. b \<noteq> []" by auto
  then show ?thesis
    by (simp add: Cons absorb_init foldl_absorb_stats_of)
qed

lemma sum_list_map_mset:
  "mset xs = mset ys \<Longrightarrow> sum_list (map f xs) = sum_list (map f ys)"
  for f :: "'a \<Rightarrow> real"
proof -
  assume "mset xs = mset ys"
  then have "mset (map f xs) = mset (map f ys)" by (metis mset_map)
  then have "sum_mset (mset (map f xs)) = sum_mset (mset (map f ys))" by simp
  then show ?thesis by (simp only: sum_mset_sum_list)
qed

lemma stats_of_mset:
  assumes "mset xs = mset ys"
  shows "stats_of p xs = stats_of p ys"
proof -
  from assms have l: "length xs = length ys" by (rule mset_eq_length)
  have m: "mean_dim0 p xs = mean_dim0 p ys"
    by (simp add: mean_dim0_def mean_list_def column_def l
        sum_list_map_mset [OF assms, of "\<lambda>r. r ! _"] o_def)
  have "batch_comoment p xs = batch_comoment p ys"
    unfolding batch_comoment_def Let_def m
    by (intro map_cong refl sum_list_map_mset [OF assms])
  with l m show ?thesis by (simp add: stats_of_def)
qed

lemma foldl_update:
  "foldl (update p) s bs = foldl (absorb p) s (map flatten_variants bs)"
  by (induction bs arbitrary: s) (simp_all add: update_def)


lemma foldl_update_stats_of:
  assumes "bs \<noteq> []" "\<forall>b \<in> set bs. flatten_variants b \<noteq> []"
  shows "foldl (update p) (init_stats p) bs = stats_of p (concat (map flatten_variants bs))"
  using assms by (simp add: foldl_update foldl_absorb_init)

text \<open>
  C1. Let a collection of hidden-state rows be cut into batches in any way (batches of
  different datasets may have different numbers of variants) and let \<open>update\<close> be called
  once per batch, each batch holding at least one row. The final statistics are those of
  a single \<open>update\<close> with a tensor that holds all the rows, in whatever order; and any two
  such sequences of batches over the same rows, in any order, end in the same statistics.
\<close>

theorem streaming_statistics_partition_invariant:
  "batches \<noteq> [] \<and> (\<forall>b \<in> set batches. flatten_variants b \<noteq> []) \<longrightarrow>
     (mset (concat (map flatten_variants batches)) = mset (flatten_variants full) \<longrightarrow>
        foldl (update p) (init_stats p) batches = update p (init_stats p) full)
   \<and> (others \<noteq> [] \<and> (\<forall>b \<in> set others. flatten_variants b \<noteq> [])
        \<and> mset (concat (map flatten_variants others))
            = mset (concat (map flatten_variants batches)) \<longrightarrow>
        foldl (update p) (init_stats p) others = foldl (update p) (init_stats p) batches)"
proof (intro impI conjI)
  assume a: "batches \<noteq> [] \<and> (\<forall>b \<in> set batches. flatten_variants b \<noteq> [])"
  then have b: "foldl (update p) (init_stats p) batches
      = stats_of p (concat (map flatten_variants batches))"
    by (simp add: foldl_update_stats_of)
  {
    assume m: "mset (concat (map flatten_variants batches)) = mset (flatten_variants full)"
    from a have "concat (map flatten_variants batches) \<noteq> []"
      by (cases batches) auto
    with m have "flatten_variants full \<noteq> []" by auto
    then have "update p (init_stats p) full = stats_of p (flatten_variants full)"
      by (simp add: update_def absorb_init)
    with b stats_of_mset [OF m, of p]
    show "foldl (update p) (init_stats p) batches = update p (init_stats p) full"
      by simp
  }
  {
    assume o: "others \<noteq> [] \<and> (\<forall>b \<in> set others. flatten_variants b \<noteq> [])
        \<and> mset (concat (map flatten_variants others))
            = mset (concat (map flatten_variants batches))"
    then have "foldl (update p) (init_stats p) others
        = stats_of p (concat (map flatten_variants others))"
      by (simp add: foldl_update_stats_of)
    with o b stats_of_mset [of "concat (map flatten_variants others)"
        "concat (map flatten_variants batches)" p]
    show "foldl (update p) (init_stats p) others = foldl (update p) (init_stats p) batches"
      by simp
  }
qed

theorem streaming_statistics_partition_invariant_witness:
  "foldl (update 1) (init_stats 1)
      [\<lparr>shape = [1, 2, 1, 1], elems = [1, 3]\<rparr>, \<lparr>shape = [1, 1, 1, 1], elems = [5]\<rparr>]
     = update 1 (init_stats 1) \<lparr>shape = [3, 1, 1, 1], elems = [5, 1, 3]\<rparr>
   \<and> foldl (update 1) (init_stats 1)
      [\<lparr>shape = [1, 1, 1, 1], elems = [5]\<rparr>, \<lparr>shape = [1, 2, 1, 1], elems = [1, 3]\<rparr>]
     = foldl (update 1) (init_stats 1)
      [\<lparr>shape = [1, 2, 1, 1], elems = [1, 3]\<rparr>, \<lparr>shape = [1, 1, 1, 1], elems = [5]\<rparr>]
   \<and> update 1 (init_stats 1) \<lparr>shape = [3, 1, 1, 1], elems = [5, 1, 3]\<rparr>
     = \<lparr>n_seen = 3, running_mean = [3], comoment = [[8]]\<rparr>"
proof -
  let ?a = "\<lparr>shape = [1, 2, 1, 1], elems = [1, 3]\<rparr>"
  let ?b = "\<lparr>shape = [1, 1, 1, 1], elems = [5]\<rparr>"
  let ?f = "\<lparr>shape = [3, 1, 1, 1], elems = [5, 1, 3]\<rparr>"
  have fa: "flatten_variants ?a = [[1], [3]]"
    by (simp add: flatten_variants_def upt_rec)
  have fb: "flatten_variants ?b = [[5]]"
    by (simp add: flatten_variants_def)
  have ff: "flatten_variants ?f = [[5], [1], [3]]"
    by (simp add: flatten_variants_def upt_rec)
  note th = streaming_statistics_partition_invariant [of "[?a, ?b]" ?f 1 "[?b, ?a]"]
  have h: "[?a, ?b] \<noteq> [] \<and> (\<forall>b \<in> set [?a, ?b]. flatten_variants b \<noteq> [])"
    unfolding list.set ball_simps fa fb by simp
  have m: "mset (concat (map flatten_variants [?a, ?b])) = mset (flatten_variants ?f)"
    unfolding list.map concat.simps fa fb ff by simp
  have o: "[?b, ?a] \<noteq> [] \<and> (\<forall>b \<in> set [?b, ?a]. flatten_variants b \<noteq> [])
      \<and> mset (concat (map flatten_variants [?b, ?a]))
          = mset (concat (map flatten_variants [?a, ?b]))"
    unfolding list.set list.map concat.simps ball_simps fa fb by simp
  have 1: "foldl (update 1) (init_stats 1) [?a, ?b] = update 1 (init_stats 1) ?f"
    using th h m by blast
  have 2: "foldl (update 1) (init_stats 1) [?b, ?a] = foldl (update 1) (init_stats 1) [?a, ?b]"
    using th h o by blast
  have 3: "update 1 (init_stats 1) ?f = \<lparr>n_seen = 3, running_mean = [3], comoment = [[8]]\<rparr>"
    unfolding update_def ff
    by (simp add: absorb_def init_stats_def Let_def batch_comoment_def
          mean_dim0_def mean_list_def column_def)
  from 1 2 3 show ?thesis by blast
qed

end
